theory Spec2Isabelle
  imports Main
begin

section \<open>JSON values and the JavaScript operators the handler uses\<close>

text \<open>
  Every value the program handles comes out of a JSON parser: the request body
  (\<^verbatim>\<open>await request.json()\<close>), the generation response (\<^verbatim>\<open>JSON.parse\<close>) and the rows the
  store returns.  A number is kept as the exact decimal its literal denotes,
  \<open>JNum m e\<close> standing for \<open>m * 10 ^ e\<close>; the runtime rounds it to a double, and the only
  thing the program ever asks of a number is whether it is zero.  An object is the list
  of its members, in order, without repeated keys.  Strings are lists of code units
  \<open>U+0000 .. U+00FF\<close>.
\<close>

datatype json =
    JNull
  | JBool bool
  | JNum int int
  | JStr string
  | JArr "json list"
  | JObj "(string \<times> json) list"

text \<open>A JavaScript value is a JSON value or \<^verbatim>\<open>undefined\<close> (\<open>None\<close>).\<close>

type_synonym jsval = "json option"

text \<open>
  What a \<^verbatim>\<open>throw\<close> or a rejected promise carries: the two built-in errors the program
  can raise, \<^verbatim>\<open>new Error(message)\<close>, the error object of the store (\<^verbatim>\<open>throw dataError\<close>),
  and the failure of the generation service.
\<close>

datatype thrown =
    SyntaxError
  | TypeError
  | Error string
  | Thrown json
  | GenerationFailed string

text \<open>
  The decimal \<open>m * 10 ^ e\<close> becomes the double \<open>0\<close> exactly when its magnitude is at most
  \<open>2 ^ -1075\<close>, half of the smallest subnormal (ties go to the even neighbour, \<open>0\<close>).
\<close>

definition rounds_to_zero :: "int \<Rightarrow> int \<Rightarrow> bool" where
  "rounds_to_zero m e =
     (if 0 \<le> e then m = 0 else \<bar>m\<bar> * 2 ^ 1075 \<le> 10 ^ nat (- e))"

text \<open>Truthiness, as \<^verbatim>\<open>if (x)\<close>, \<^verbatim>\<open>!x\<close> and \<^verbatim>\<open>x || y\<close> test it.\<close>

fun truthy :: "jsval \<Rightarrow> bool" where
  "truthy None = False"
| "truthy (Some JNull) = False"
| "truthy (Some (JBool b)) = b"
| "truthy (Some (JNum m e)) = (\<not> rounds_to_zero m e)"
| "truthy (Some (JStr s)) = (s \<noteq> [])"
| "truthy (Some (JArr xs)) = True"
| "truthy (Some (JObj kvs)) = True"

text \<open>\<^verbatim>\<open>x == null\<close>: the test behind \<^verbatim>\<open>??\<close> and \<^verbatim>\<open>?.\<close>.\<close>

fun nullish :: "jsval \<Rightarrow> bool" where
  "nullish None = True"
| "nullish (Some JNull) = True"
| "nullish (Some v) = False"

text \<open>
  A property read on a value that is neither \<^verbatim>\<open>null\<close> nor \<^verbatim>\<open>undefined\<close>.  The program reads
  fixed names only (\<^verbatim>\<open>structuredData\<close>, \<^verbatim>\<open>personal_info\<close>, \<^verbatim>\<open>name\<close>, \<^verbatim>\<open>html\<close>, ...), none of which
  a string, number, boolean or array carries, so only an object's own members answer.
\<close>

fun get_prop :: "json \<Rightarrow> string \<Rightarrow> jsval" where
  "get_prop (JObj kvs) k = map_of kvs k"
| "get_prop v k = None"

text \<open>\<^verbatim>\<open>v.k\<close>: a TypeError on \<^verbatim>\<open>null\<close> and \<^verbatim>\<open>undefined\<close>.\<close>

fun member :: "jsval \<Rightarrow> string \<Rightarrow> thrown + jsval" where
  "member None k = Inl TypeError"
| "member (Some JNull) k = Inl TypeError"
| "member (Some v) k = Inr (get_prop v k)"

text \<open>\<^verbatim>\<open>v?.k\<close>: \<^verbatim>\<open>undefined\<close> on \<^verbatim>\<open>null\<close> and \<^verbatim>\<open>undefined\<close>.\<close>

fun opt_member :: "jsval \<Rightarrow> string \<Rightarrow> jsval" where
  "opt_member None k = None"
| "opt_member (Some JNull) k = None"
| "opt_member (Some v) k = get_prop v k"

text \<open>\<^verbatim>\<open>a ?? b\<close> with a JSON default, and \<^verbatim>\<open>a || b\<close>.\<close>

definition coalesce :: "jsval \<Rightarrow> json \<Rightarrow> json" where
  "coalesce a b = (if nullish a then b else the a)"

definition or_else :: "jsval \<Rightarrow> json \<Rightarrow> json" where
  "or_else a b = (if truthy a then the a else b)"

section \<open>String operations\<close>

text \<open>\<^verbatim>\<open>s.indexOf(c)\<close> and \<^verbatim>\<open>s.lastIndexOf(c)\<close> for a one-character needle: \<open>-1\<close> when absent.\<close>

primrec indexOf :: "string \<Rightarrow> char \<Rightarrow> int" where
  "indexOf [] c = - 1"
| "indexOf (x # xs) c =
     (if x = c then 0
      else (let r = indexOf xs c in if r = - 1 then - 1 else r + 1))"

primrec lastIndexOf :: "string \<Rightarrow> char \<Rightarrow> int" where
  "lastIndexOf [] c = - 1"
| "lastIndexOf (x # xs) c =
     (let r = lastIndexOf xs c in
      if r \<noteq> - 1 then r + 1 else if x = c then 0 else - 1)"

text \<open>
  \<^verbatim>\<open>s.substring(start, end)\<close>: both indices are clamped to \<open>0 .. length s\<close> and swapped
  when \<open>start > end\<close>.
\<close>

definition substring :: "string \<Rightarrow> int \<Rightarrow> int \<Rightarrow> string" where
  "substring s start end' =
     (let len = int (length s);
          a = min (max start 0) len;
          b = min (max end' 0) len;
          lo = min a b;
          hi = max a b
      in take (nat (hi - lo)) (drop (nat lo) s))"

text \<open>\<^verbatim>\<open>toLowerCase\<close> on code units up to \<open>U+00FF\<close>: A-Z and the Latin-1 capitals.\<close>

definition lower_char :: "char \<Rightarrow> char" where
  "lower_char c =
     (let n = (of_char c :: nat)
      in if (65 \<le> n \<and> n \<le> 90) \<or> (192 \<le> n \<and> n \<le> 222 \<and> n \<noteq> 215)
         then char_of (n + 32) else c)"

definition toLowerCase :: "string \<Rightarrow> string" where
  "toLowerCase s = map lower_char s"

text \<open>The class \<^verbatim>\<open>\s\<close> of a regular expression, on code units up to \<open>U+00FF\<close>.\<close>

definition is_space :: "char \<Rightarrow> bool" where
  "is_space c = ((of_char c :: nat) \<in> {9, 10, 11, 12, 13, 32, 160})"

text \<open>\<^verbatim>\<open>s.replace(/\s+/g, "-")\<close>: every maximal run of white space becomes one hyphen.\<close>

function replace_spaces :: "string \<Rightarrow> string" where
  "replace_spaces [] = []"
| "replace_spaces (c # cs) =
     (if is_space c then CHR ''-'' # replace_spaces (dropWhile is_space cs)
      else c # replace_spaces cs)"
  by pat_completeness auto
termination
  by (relation "measure length") (auto simp: length_dropWhile_le less_Suc_eq_le)

text \<open>The decimal digits of a number, as a template literal prints an integer.\<close>

fun digits :: "nat \<Rightarrow> string" where
  "digits n =
     (if n < 10 then [char_of (48 + n)]
      else digits (n div 10) @ [char_of (48 + n mod 10)])"

declare digits.simps [simp del]

definition show_int :: "int \<Rightarrow> string" where
  "show_int i = (if i < 0 then CHR ''-'' # digits (nat (- i)) else digits (nat i))"

section \<open>The runtime's \<^verbatim>\<open>JSON.parse\<close>\<close>

text \<open>
  \<^verbatim>\<open>JSON.parse\<close> belongs to the runtime, not to the repository; this is the JSON grammar
  of ECMA-404 as ECMAScript reads it: a lexer, then a pushdown automaton over the
  tokens.  \<open>None\<close> is the SyntaxError.  A repeated key keeps its first position and its
  last value.  A \<^verbatim>\<open>\uXXXX\<close> escape above \<open>U+00FF\<close> has no code unit in this model and is
  reduced modulo 256.
\<close>

datatype token = LBrace | RBrace | LBracket | RBracket | Colon | Comma | Scalar json

definition is_digit :: "char \<Rightarrow> bool" where
  "is_digit c = (48 \<le> (of_char c :: nat) \<and> (of_char c :: nat) \<le> 57)"

definition is_json_ws :: "char \<Rightarrow> bool" where
  "is_json_ws c = ((of_char c :: nat) \<in> {9, 10, 13, 32})"

definition hex_val :: "char \<Rightarrow> nat option" where
  "hex_val c =
     (let n = (of_char c :: nat)
      in if 48 \<le> n \<and> n \<le> 57 then Some (n - 48)
         else if 65 \<le> n \<and> n \<le> 70 then Some (n - 55)
         else if 97 \<le> n \<and> n \<le> 102 then Some (n - 87)
         else None)"

definition unescape :: "char \<Rightarrow> char option" where
  "unescape e =
     (if e = CHR 0x22 \<or> e = CHR 0x5C \<or> e = CHR ''/'' then Some e
      else if e = CHR ''b'' then Some (CHR 0x08)
      else if e = CHR ''f'' then Some (CHR 0x0C)
      else if e = CHR ''n'' then Some (CHR 0x0A)
      else if e = CHR ''r'' then Some (CHR 0x0D)
      else if e = CHR ''t'' then Some (CHR 0x09)
      else None)"

text \<open>
  The rest of a string literal after its opening quote: the characters it denotes
  (collected in reverse in \<open>acc\<close>) and the input after the closing quote.
\<close>

fun scan_string :: "string \<Rightarrow> string \<Rightarrow> (string \<times> string) option" where
  "scan_string acc [] = None"
| "scan_string acc (c # cs) =
     (if c = CHR 0x22 then Some (rev acc, cs)
      else if c = CHR 0x5C then
        (case cs of
           [] \<Rightarrow> None
         | e # cs' \<Rightarrow>
             if e = CHR ''u'' then
               (case cs' of
                  h1 # h2 # h3 # h4 # cs'' \<Rightarrow>
                    (case (hex_val h1, hex_val h2, hex_val h3, hex_val h4) of
                       (Some a, Some b, Some c', Some d) \<Rightarrow>
                         scan_string (char_of (((a * 16 + b) * 16 + c') * 16 + d) # acc) cs''
                     | _ \<Rightarrow> None)
                | _ \<Rightarrow> None)
             else
               (case unescape e of
                  None \<Rightarrow> None
                | Some x \<Rightarrow> scan_string (x # acc) cs'))
      else if (of_char c :: nat) < 32 then None
      else scan_string (c # acc) cs)"

definition nat_of_digits :: "string \<Rightarrow> nat" where
  "nat_of_digits ds = foldl (\<lambda>n c. 10 * n + ((of_char c :: nat) - 48)) 0 ds"

text \<open>The optional fraction of a number: its digits and the input after them.\<close>

definition scan_frac :: "string \<Rightarrow> (string \<times> string) option" where
  "scan_frac s =
     (case s of
        [] \<Rightarrow> Some ([], s)
      | c # cs \<Rightarrow>
          if c = CHR ''.'' then
            (if takeWhile is_digit cs = [] then None
             else Some (takeWhile is_digit cs, dropWhile is_digit cs))
          else Some ([], s))"

text \<open>The optional exponent of a number: its value and the input after it.\<close>

definition scan_exp :: "string \<Rightarrow> (int \<times> string) option" where
  "scan_exp s =
     (case s of
        [] \<Rightarrow> Some (0, s)
      | c # cs \<Rightarrow>
          if c = CHR ''e'' \<or> c = CHR ''E'' then
            (let (sg, ds) =
                   (case cs of
                      [] \<Rightarrow> (1, cs)
                    | d # ds' \<Rightarrow>
                        if d = CHR ''+'' then (1, ds')
                        else if d = CHR ''-'' then (- 1, ds')
                        else (1, cs))
             in if takeWhile is_digit ds = [] then None
                else Some (sg * int (nat_of_digits (takeWhile is_digit ds)),
                           dropWhile is_digit ds))
          else Some (0, s))"

text \<open>
  A number literal \<^verbatim>\<open>-?(0|[1-9][0-9]*)(\.[0-9]+)?([eE][+-]?[0-9]+)?\<close>: mantissa,
  decimal exponent and the input after it.
\<close>

definition scan_number :: "string \<Rightarrow> ((int \<times> int) \<times> string) option" where
  "scan_number s =
     (let (sg, s1) =
            (case s of
               [] \<Rightarrow> (1, s)
             | c # cs \<Rightarrow> if c = CHR ''-'' then (- 1, cs) else (1, s));
          ip = takeWhile is_digit s1
      in if ip = [] \<or> (1 < length ip \<and> hd ip = CHR ''0'') then None
         else
           (case scan_frac (dropWhile is_digit s1) of
              None \<Rightarrow> None
            | Some (fp, s3) \<Rightarrow>
                (case scan_exp s3 of
                   None \<Rightarrow> None
                 | Some (ex, s4) \<Rightarrow>
                     Some ((sg * int (nat_of_digits (ip @ fp)), ex - int (length fp)), s4))))"

lemma scan_string_shorter:
  "scan_string acc s = Some (v, r) \<Longrightarrow> length r < length s"
proof (induction acc s rule: scan_string.induct)
  case (1 acc)
  then show ?case by simp
next
  case (2 acc c cs)
  then show ?case
    by (auto split: if_splits list.splits option.splits simp: less_Suc_eq)
qed

lemma scan_frac_shorter: "scan_frac s = Some (v, r) \<Longrightarrow> length r \<le> length s"
  by (auto simp: scan_frac_def length_dropWhile_le le_Suc_eq split: list.splits if_splits)

lemma scan_exp_shorter: "scan_exp s = Some (v, r) \<Longrightarrow> length r \<le> length s"
proof (cases s)
  case Nil
  then show "scan_exp s = Some (v, r) \<Longrightarrow> length r \<le> length s"
    by (simp add: scan_exp_def)
next
  case (Cons c cs)
  assume a: "scan_exp s = Some (v, r)"
  have d: "length (dropWhile is_digit xs) \<le> length xs" for xs :: string
    by (rule length_dropWhile_le)
  show "length r \<le> length s"
  proof (cases cs)
    case Nil
    with a Cons show ?thesis
      by (auto simp: scan_exp_def split: if_splits)
  next
    case (Cons d' ds')
    with a \<open>s = c # cs\<close> d [of cs] d [of ds'] show ?thesis
      by (auto simp: scan_exp_def Let_def split: if_splits)
  qed
qed

lemma scan_number_shorter:
  assumes "scan_number s = Some (v, r)"
  shows "length r < length s"
proof -
  obtain sg s1 where s1: "(case s of [] \<Rightarrow> (1::int, s)
      | c # cs \<Rightarrow> if c = CHR ''-'' then (- 1, cs) else (1, s)) = (sg, s1)"
    by (cases "case s of [] \<Rightarrow> (1::int, s)
      | c # cs \<Rightarrow> if c = CHR ''-'' then (- 1, cs) else (1, s)") auto
  then have l1: "length s1 \<le> length s"
    by (auto split: list.splits if_splits)
  from assms s1 have ne: "takeWhile is_digit s1 \<noteq> []"
    by (auto simp: scan_number_def Let_def split: if_splits)
  have "length (takeWhile is_digit s1) + length (dropWhile is_digit s1) = length s1"
    by (metis length_append takeWhile_dropWhile_id)
  with ne have l2: "length (dropWhile is_digit s1) < length s1"
    by (cases "takeWhile is_digit s1") auto
  from assms s1 ne obtain fp s3 ex where
    f: "scan_frac (dropWhile is_digit s1) = Some (fp, s3)" and e: "scan_exp s3 = Some (ex, r)"
    by (auto simp: scan_number_def Let_def split: if_splits option.splits)
  from scan_frac_shorter [OF f] scan_exp_shorter [OF e] l1 l2 show ?thesis
    by simp
qed

definition has_prefix :: "string \<Rightarrow> string \<Rightarrow> bool" where
  "has_prefix p s = (take (length p) s = p)"

definition punctuation :: "char \<Rightarrow> token option" where
  "punctuation c =
     (if c = CHR ''{'' then Some LBrace
      else if c = CHR ''}'' then Some RBrace
      else if c = CHR ''['' then Some LBracket
      else if c = CHR '']'' then Some RBracket
      else if c = CHR '':'' then Some Colon
      else if c = CHR '','' then Some Comma
      else None)"

text \<open>The token at the head of an input that does not start with white space, and the
  input after it.\<close>

definition next_token :: "string \<Rightarrow> (token \<times> string) option" where
  "next_token s =
     (case s of
        [] \<Rightarrow> None
      | c # cs \<Rightarrow>
          (case punctuation c of
             Some t \<Rightarrow> Some (t, cs)
           | None \<Rightarrow>
               if c = CHR 0x22 then
                 (case scan_string [] cs of
                    None \<Rightarrow> None
                  | Some (v, rest) \<Rightarrow> Some (Scalar (JStr v), rest))
               else if c = CHR ''-'' \<or> is_digit c then
                 (case scan_number s of
                    None \<Rightarrow> None
                  | Some ((m, e), rest) \<Rightarrow> Some (Scalar (JNum m e), rest))
               else if has_prefix ''true'' s then Some (Scalar (JBool True), drop 4 s)
               else if has_prefix ''false'' s then Some (Scalar (JBool False), drop 5 s)
               else if has_prefix ''null'' s then Some (Scalar JNull, drop 4 s)
               else None))"

lemma next_token_shorter:
  assumes "next_token s = Some (t, r)"
  shows "length r < length s"
proof (cases s)
  case Nil
  with assms show ?thesis by (simp add: next_token_def)
next
  case (Cons c cs)
  show ?thesis
  proof (cases "punctuation c")
    case (Some p)
    with assms Cons have "r = cs" by (simp add: next_token_def)
    with Cons show ?thesis by simp
  next
    case None
    note np = this
    show ?thesis
    proof (cases "c = CHR 0x22")
      case True
      with assms Cons np obtain v where "scan_string [] cs = Some (v, r)"
        by (auto simp: next_token_def split: option.splits)
      from scan_string_shorter [OF this] Cons show ?thesis by simp
    next
      case False
      note nq = this
      show ?thesis
      proof (cases "c = CHR ''-'' \<or> is_digit c")
        case True
        with assms Cons np nq obtain v where "scan_number s = Some (v, r)"
          by (simp add: next_token_def split: option.splits prod.splits)
        from scan_number_shorter [OF this] show ?thesis .
      next
        case False
        with assms Cons np nq have "r = drop 4 s \<or> r = drop 5 s"
          by (simp add: next_token_def split: if_splits)
        with Cons show ?thesis by auto
      qed
    qed
  qed
qed

function tokenize :: "string \<Rightarrow> token list option" where
  "tokenize s =
     (case dropWhile is_json_ws s of
        [] \<Rightarrow> Some []
      | c # cs \<Rightarrow>
          (case next_token (c # cs) of
             None \<Rightarrow> None
           | Some (t, rest) \<Rightarrow> map_option ((#) t) (tokenize rest)))"
  by pat_completeness auto
termination
proof (relation "measure length")
  show "wf (measure length)" by simp
next
  fix s :: string and c cs x t rest
  assume d: "dropWhile is_json_ws s = c # cs" and n: "next_token (c # cs) = Some x"
    and x: "(t, rest) = x"
  from n x have "length rest < length (c # cs)"
    by (auto dest: next_token_shorter)
  also have "length (c # cs) \<le> length s"
    using length_dropWhile_le [of is_json_ws s] d by simp
  finally show "(rest, s) \<in> measure length" by simp
qed

declare tokenize.simps [simp del]

text \<open>Containers under construction: an array's elements, an object's members and the
  key whose value is being read.\<close>

datatype frame = ArrF "json list" | ObjF "(string \<times> json) list" string

datatype mode =
    WantValue
  | WantValueOrEnd
  | WantKeyOrEnd
  | WantKey
  | WantColon
  | AfterValue
  | Finished json

fun set_member :: "string \<Rightarrow> json \<Rightarrow> (string \<times> json) list \<Rightarrow> (string \<times> json) list" where
  "set_member k v [] = [(k, v)]"
| "set_member k v (p # ps) = (if fst p = k then (k, v) # ps else p # set_member k v ps)"

fun close_value :: "json \<Rightarrow> frame list \<Rightarrow> mode \<times> frame list" where
  "close_value v [] = (Finished v, [])"
| "close_value v (ArrF xs # st) = (AfterValue, ArrF (xs @ [v]) # st)"
| "close_value v (ObjF kvs k # st) = (AfterValue, ObjF (set_member k v kvs) k # st)"

fun start_value :: "token \<Rightarrow> frame list \<Rightarrow> (mode \<times> frame list) option" where
  "start_value (Scalar v) st = Some (close_value v st)"
| "start_value LBracket st = Some (WantValueOrEnd, ArrF [] # st)"
| "start_value LBrace st = Some (WantKeyOrEnd, ObjF [] [] # st)"
| "start_value t st = None"

fun end_array :: "frame list \<Rightarrow> (mode \<times> frame list) option" where
  "end_array (ArrF xs # st) = Some (close_value (JArr xs) st)"
| "end_array st = None"

fun end_object :: "frame list \<Rightarrow> (mode \<times> frame list) option" where
  "end_object (ObjF kvs k # st) = Some (close_value (JObj kvs) st)"
| "end_object st = None"

fun read_key :: "token \<Rightarrow> frame list \<Rightarrow> (mode \<times> frame list) option" where
  "read_key (Scalar (JStr k)) (ObjF kvs k' # st) = Some (WantColon, ObjF kvs k # st)"
| "read_key t st = None"

fun after_comma :: "frame list \<Rightarrow> (mode \<times> frame list) option" where
  "after_comma [] = None"
| "after_comma (ArrF xs # st) = Some (WantValue, ArrF xs # st)"
| "after_comma (ObjF kvs k # st) = Some (WantKey, ObjF kvs k # st)"

fun step :: "token \<Rightarrow> mode \<times> frame list \<Rightarrow> (mode \<times> frame list) option" where
  "step t (WantValue, st) = start_value t st"
| "step t (WantValueOrEnd, st) = (if t = RBracket then end_array st else start_value t st)"
| "step t (WantKeyOrEnd, st) = (if t = RBrace then end_object st else read_key t st)"
| "step t (WantKey, st) = read_key t st"
| "step t (WantColon, st) = (if t = Colon then Some (WantValue, st) else None)"
| "step t (AfterValue, st) =
     (if t = Comma then after_comma st
      else if t = RBracket then end_array st
      else if t = RBrace then end_object st
      else None)"
| "step t (Finished v, st) = None"

fun run :: "token list \<Rightarrow> mode \<times> frame list \<Rightarrow> (mode \<times> frame list) option" where
  "run [] s = Some s"
| "run (t # ts) s = (case step t s of None \<Rightarrow> None | Some s' \<Rightarrow> run ts s')"

definition JSON_parse :: "string \<Rightarrow> json option" where
  "JSON_parse s =
     (case tokenize s of
        None \<Rightarrow> None
      | Some ts \<Rightarrow>
          (case run ts (WantValue, []) of
             Some (Finished v, st) \<Rightarrow> Some v
           | _ \<Rightarrow> None))"

section \<open>The generation endpoint: \<^verbatim>\<open>POST\<close>\<close>

text \<open>
  A column of a row to insert: a value, or the text \<^verbatim>\<open>JSON.stringify\<close> gives for a value
  (kept as the value it serialises).
\<close>

datatype column = Value json | Json_text json

type_synonym row = "(string \<times> column) list"

text \<open>What \<^verbatim>\<open>supabase.from(t).insert([r]).select(cols).single()\<close> resolves to.\<close>

record insert_result =
  data :: jsval
  error :: jsval

text \<open>The calls the handler makes to its collaborators, in order.\<close>

datatype call =
    GenerateText json
  | Insert string row

text \<open>
  Everything outside the handler: the parsed request body (or what \<^verbatim>\<open>request.json()\<close>
  throws), the credential in the process environment, the generation service (called
  with the prompt, which embeds \<^verbatim>\<open>structuredData\<close> in a fixed template), the store and
  the clock (\<^verbatim>\<open>Date.now()\<close>, a whole number of milliseconds, which a template literal
  prints in plain decimal).
\<close>

record env =
  request_json :: "thrown + json"
  GOOGLE_GENERATIVE_AI_API_KEY :: "string option"
  generateText :: "json \<Rightarrow> thrown + string"
  supabase_insert :: "string \<Rightarrow> row \<Rightarrow> insert_result"
  Date_now :: int

datatype response = Response (status: nat) (body: json)

definition fallbackPortfolio :: json where
  \<open>fallbackPortfolio = JObj
     [(''html'', JStr (
        ''\<newline>          <!DOCTYPE html>'' @
        ''\<newline>          <html>'' @
        ''\<newline>            <head>'' @
        ''\<newline>              <title>My Portfolio</title>'' @
        ''\<newline>              <style></style>'' @
        ''\<newline>            </head>'' @
        ''\<newline>            <body>'' @
        ''\<newline>              <h1>Hello, World!</h1>'' @
        ''\<newline>              <p>Could not generate portfolio. This is fallback content.</p>'' @
        ''\<newline>              <script></script>'' @
        ''\<newline>            </body>'' @
        ''\<newline>          </html>'')),
      (''css'', JStr ''body { font-family: sans-serif; text-align: center; color: #333; }''),
      (''js'', JStr ''console.log("Portfolio generation failed.");'')]\<close>

text \<open>\<^verbatim>\<open>NextResponse.json({ success: true, portfolio: p })\<close>, lines 130-133 and 154.\<close>

definition success_response :: "json \<Rightarrow> response" where
  "success_response p = Response 200 (JObj [(''success'', JBool True), (''portfolio'', p)])"

text \<open>
  Lines 67-78, the row for \<^verbatim>\<open>portfolio_data\<close>.  \<^verbatim>\<open>structuredData\<close> is truthy here, so
  reading its properties cannot throw.
\<close>

definition portfolio_data_row :: "json \<Rightarrow> json \<Rightarrow> row" where
  "portfolio_data_row userId structuredData =
     [(''user_id'', Value userId),
      (''personal_info'', Json_text (or_else (get_prop structuredData ''personal_info'') (JObj []))),
      (''experience'', Json_text (or_else (get_prop structuredData ''experience'') (JArr []))),
      (''education'', Json_text (or_else (get_prop structuredData ''education'') (JArr []))),
      (''skills'', Json_text (or_else (get_prop structuredData ''skills'') (JArr []))),
      (''projects'', Json_text (or_else (get_prop structuredData ''projects'') (JArr []))),
      (''certifications'', Json_text (or_else (get_prop structuredData ''certifications'') (JArr []))),
      (''achievements'', Json_text (or_else (get_prop structuredData ''achievements'') (JArr []))),
      (''languages'', Json_text (or_else (get_prop structuredData ''languages'') (JArr []))),
      (''ai_enhanced'', Value (JBool True))]"

text \<open>\<^verbatim>\<open>structuredData?.personal_info?.name\<close>\<close>

definition personal_name :: "json \<Rightarrow> jsval" where
  "personal_name structuredData =
     opt_member (opt_member (Some structuredData) ''personal_info'') ''name''"

text \<open>
  \<^verbatim>\<open>structuredData?.personal_info?.name?.toLowerCase().replace(/\s+/g, "-")\<close>: the chain
  stops with \<^verbatim>\<open>undefined\<close> at a missing name; a name that is not a string has no
  \<^verbatim>\<open>toLowerCase\<close>, and calling it is a TypeError.
\<close>

definition slug_base :: "json \<Rightarrow> thrown + string option" where
  "slug_base structuredData =
     (case personal_name structuredData of
        None \<Rightarrow> Inr None
      | Some JNull \<Rightarrow> Inr None
      | Some (JStr s) \<Rightarrow> Inr (Some (replace_spaces (toLowerCase s)))
      | Some v \<Rightarrow> Inl TypeError)"

text \<open>Line 95, the template literal of the slug.\<close>

definition make_slug :: "json \<Rightarrow> int \<Rightarrow> thrown + string" where
  "make_slug structuredData now =
     (case slug_base structuredData of
        Inl e \<Rightarrow> Inl e
      | Inr b \<Rightarrow>
          Inr ((case b of None \<Rightarrow> ''portfolio'' | Some s \<Rightarrow> s) @ ''-'' @ show_int now))"

definition default_metadata :: "json \<Rightarrow> json" where
  "default_metadata structuredData = JObj
     [(''title'', coalesce (personal_name structuredData) (JStr ''My Portfolio'')),
      (''description'', JStr ''Portfolio generated by AI''),
      (''keywords'', JArr [JStr ''portfolio'', JStr ''resume'', JStr ''AI''])]"

definition default_customizations :: json where
  "default_customizations = JObj
     [(''colors'', JObj [(''primary'', JStr ''#000000''), (''secondary'', JStr ''#ffffff'')]),
      (''layout'', JStr ''default''),
      (''sections'', JArr [JStr ''about'', JStr ''experience'', JStr ''projects'', JStr ''contact''])]"

text \<open>
  Lines 91-115, the row for \<^verbatim>\<open>portfolios\<close>, its properties evaluated in order:
  \<^verbatim>\<open>portfolioData.id\<close> throws when the store returned no row, the slug throws on a name
  that is not a string, \<^verbatim>\<open>generatedCode.html\<close> throws when the parsed value is \<^verbatim>\<open>null\<close>.
  A property that is \<^verbatim>\<open>undefined\<close> (only \<^verbatim>\<open>portfolio_data_id\<close> can be) is left out.
\<close>

definition portfolios_row ::
  "json \<Rightarrow> jsval \<Rightarrow> json \<Rightarrow> json \<Rightarrow> int \<Rightarrow> thrown + row" where
  "portfolios_row userId portfolioData structuredData code now =
     (case member portfolioData ''id'' of
        Inl e \<Rightarrow> Inl e
      | Inr portfolio_data_id \<Rightarrow>
     (case make_slug structuredData now of
        Inl e \<Rightarrow> Inl e
      | Inr slug' \<Rightarrow>
     (case member (Some code) ''html'' of
        Inl e \<Rightarrow> Inl e
      | Inr html \<Rightarrow>
     (case member (Some code) ''css'' of
        Inl e \<Rightarrow> Inl e
      | Inr css \<Rightarrow>
     (case member (Some code) ''js'' of
        Inl e \<Rightarrow> Inl e
      | Inr js \<Rightarrow>
          Inr ([(''user_id'', Value userId)] @
               (case portfolio_data_id of
                  None \<Rightarrow> []
                | Some i \<Rightarrow> [(''portfolio_data_id'', Value i)]) @
               [(''title'', Value (coalesce (personal_name structuredData) (JStr ''Untitled Portfolio''))),
                (''slug'', Value (JStr slug')),
                (''template_id'', Value (coalesce (opt_member (Some structuredData) ''template_id'')
                                           (JStr ''default-template''))),
                (''html_content'', Value (coalesce html (JStr []))),
                (''css_content'', Value (coalesce css (JStr []))),
                (''js_content'', Value (coalesce js (JStr []))),
                (''metadata'', Value (coalesce (opt_member (Some structuredData) ''metadata'')
                                        (default_metadata structuredData))),
                (''customizations'', Value (coalesce (opt_member (Some structuredData) ''customizations'')
                                              default_customizations)),
                (''is_published'', Value (JBool False)),
                (''view_count'', Value (JNum 0 0))]))))))"

text \<open>
  Lines 63-125, the block under \<^verbatim>\<open>if (userId)\<close>: the calls it makes and the exception it
  ends with, if any.
\<close>

definition persist :: "env \<Rightarrow> json \<Rightarrow> json \<Rightarrow> json \<Rightarrow> call list \<times> thrown option" where
  "persist E userId structuredData code =
     (let row1 = portfolio_data_row userId structuredData;
          res1 = supabase_insert E ''portfolio_data'' row1
      in if truthy (error res1)
         then ([Insert ''portfolio_data'' row1], Some (Thrown (the (error res1))))
         else
           (case portfolios_row userId (data res1) structuredData code (Date_now E) of
              Inl e \<Rightarrow> ([Insert ''portfolio_data'' row1], Some e)
            | Inr row2 \<Rightarrow>
                (let res2 = supabase_insert E ''portfolios'' row2
                 in if truthy (error res2)
                    then ([Insert ''portfolio_data'' row1, Insert ''portfolios'' row2],
                          Some (Thrown (the (error res2))))
                    else ([Insert ''portfolio_data'' row1, Insert ''portfolios'' row2], None))))"

text \<open>
  Lines 52-59: the error of line 56 when the response has no \<^verbatim>\<open>{\<close> or no \<^verbatim>\<open>}\<close>, otherwise
  what \<^verbatim>\<open>substring\<close> gives for the index of the first \<^verbatim>\<open>{\<close> and the index after the last \<^verbatim>\<open>}\<close>.
\<close>

definition jsonString :: "string \<Rightarrow> thrown + string" where
  "jsonString geminiResponse =
     (let jsonStart = indexOf geminiResponse CHR ''{'';
          jsonEnd = lastIndexOf geminiResponse CHR ''}''
      in if jsonStart = - 1 \<or> jsonEnd = - 1
         then Inl (Error ''Could not find a valid JSON object in the AI response for portfolio code.'')
         else Inr (substring geminiResponse jsonStart (jsonEnd + 1)))"

text \<open>Lines 52-61: the value parsed from the response.\<close>

definition generatedCode :: "string \<Rightarrow> thrown + json" where
  "generatedCode geminiResponse =
     (case jsonString geminiResponse of
        Inl e \<Rightarrow> Inl e
      | Inr s \<Rightarrow> (case JSON_parse s of None \<Rightarrow> Inl SyntaxError | Some v \<Rightarrow> Inr v))"

text \<open>
  Lines 52-133, what follows the generation call: parse the response, store when a
  \<^verbatim>\<open>userId\<close> came with the request, answer with the parsed value.
\<close>

definition after_generation ::
  "env \<Rightarrow> jsval \<Rightarrow> json \<Rightarrow> string \<Rightarrow> call list \<times> (thrown + response)" where
  "after_generation E userId structuredData geminiResponse =
     (case generatedCode geminiResponse of
        Inl e \<Rightarrow> ([], Inl e)
      | Inr code \<Rightarrow>
          (let (calls, failure) =
                 (if truthy userId then persist E (the userId) structuredData code
                  else ([], None))
           in (calls,
               case failure of
                 Some e \<Rightarrow> Inl e
               | None \<Rightarrow> Inr (success_response code))))"

text \<open>
  The body of the \<^verbatim>\<open>try\<close>, lines 8-133: the calls made, and the response or the
  exception it ends with.  Destructuring \<^verbatim>\<open>null\<close> is a TypeError.
\<close>

definition POST_try :: "env \<Rightarrow> call list \<times> (thrown + response)" where
  "POST_try E =
     (case request_json E of
        Inl e \<Rightarrow> ([], Inl e)
      | Inr payload \<Rightarrow>
          (case member (Some payload) ''structuredData'' of
             Inl e \<Rightarrow> ([], Inl e)
           | Inr structuredData \<Rightarrow>
               (let userId = get_prop payload ''userId''
                in if \<not> truthy structuredData
                   then ([], Inr (Response 400
                                    (JObj [(''error'', JStr ''No structured data provided'')])))
                   else if GOOGLE_GENERATIVE_AI_API_KEY E = None
                           \<or> GOOGLE_GENERATIVE_AI_API_KEY E = Some []
                   then ([], Inl (Error ''Missing GOOGLE_GENERATIVE_AI_API_KEY''))
                   else
                     (case generateText E (the structuredData) of
                        Inl e \<Rightarrow> ([GenerateText (the structuredData)], Inl e)
                      | Inr geminiResponse \<Rightarrow>
                          (let (calls, outcome) =
                                 after_generation E userId (the structuredData) geminiResponse
                           in (GenerateText (the structuredData) # calls, outcome))))))"

text \<open>The handler: whatever the \<^verbatim>\<open>try\<close> throws is answered with the fallback, lines 134-155.\<close>

definition POST :: "env \<Rightarrow> call list \<times> response" where
  "POST E =
     (case POST_try E of
        (calls, Inr r) \<Rightarrow> (calls, r)
      | (calls, Inl e) \<Rightarrow> (calls, success_response fallbackPortfolio))"

text \<open>The rows the handler asked the store to insert into a table.\<close>

fun inserts :: "string \<Rightarrow> call list \<Rightarrow> row list" where
  "inserts t [] = []"
| "inserts t (GenerateText p # cs) = inserts t cs"
| "inserts t (Insert t' r # cs) = (if t' = t then r # inserts t cs else inserts t cs)"

section \<open>The dashboard: \<^verbatim>\<open>fetchData\<close>\<close>

text \<open>
  A row the store returns for \<^verbatim>\<open>select("*")\<close> is an object: the list of its columns.
  \<^verbatim>\<open>r.k\<close> is \<^verbatim>\<open>undefined\<close> for a column the row does not have.
\<close>

type_synonym db_row = "(string \<times> json) list"

text \<open>\<^verbatim>\<open>a ?? b\<close> where \<open>b\<close> may itself be \<^verbatim>\<open>undefined\<close>.\<close>

definition nullish_or :: "jsval \<Rightarrow> jsval \<Rightarrow> jsval" where
  "nullish_or a b = (if nullish a then b else a)"

record Resume =
  id' :: jsval
  user_id :: jsval
  filename :: jsval
  file_size :: jsval
  file_url :: jsval
  extracted_text :: jsval
  pages_count :: jsval
  processing_status :: jsval
  created_at :: jsval
  updated_at :: jsval

record Portfolio =
  id' :: jsval
  user_id :: jsval
  portfolio_data_id :: jsval
  title :: jsval
  slug :: jsval
  template_id :: jsval
  html_content :: jsval
  css_content :: jsval
  js_content :: jsval
  metadata :: jsval
  customizations :: jsval
  is_published :: bool
  view_count :: jsval
  last_viewed_at :: jsval
  created_at :: jsval
  updated_at :: jsval

text \<open>Lines 88-99, the function mapped over \<^verbatim>\<open>resumesRes.data\<close>.\<close>

definition Resume_of :: "string \<Rightarrow> db_row \<Rightarrow> Resume" where
  "Resume_of userId r =
     \<lparr> Resume.id' = map_of r ''id'',
       Resume.user_id = nullish_or (map_of r ''user_id'') (Some (JStr userId)),
       filename = map_of r ''filename'',
       file_size = map_of r ''file_size'',
       file_url = nullish_or (map_of r ''file_url'') (Some (JStr [])),
       extracted_text = nullish_or (map_of r ''extracted_text'') (Some (JStr [])),
       pages_count = nullish_or (map_of r ''pages_count'') (Some (JNum 0 0)),
       processing_status = nullish_or (map_of r ''processing_status'') (Some (JStr ''completed'')),
       Resume.created_at = map_of r ''created_at'',
       Resume.updated_at = nullish_or (map_of r ''updated_at'') (map_of r ''created_at'') \<rparr>"

text \<open>Lines 106-123, the function mapped over \<^verbatim>\<open>portfoliosRes.data\<close>.\<close>

definition Portfolio_of :: "string \<Rightarrow> db_row \<Rightarrow> Portfolio" where
  "Portfolio_of userId p =
     \<lparr> Portfolio.id' = map_of p ''id'',
       Portfolio.user_id = nullish_or (map_of p ''user_id'') (Some (JStr userId)),
       portfolio_data_id = nullish_or (map_of p ''portfolio_data_id'') (Some (JStr [])),
       title = nullish_or (map_of p ''title'') (Some (JStr ''Untitled Portfolio'')),
       slug = nullish_or (map_of p ''slug'') (Some (JStr [])),
       template_id = nullish_or (map_of p ''template_id'') (Some (JStr [])),
       html_content = nullish_or (map_of p ''html_content'') (Some (JStr [])),
       css_content = nullish_or (map_of p ''css_content'') (Some (JStr [])),
       js_content = nullish_or (map_of p ''js_content'') (Some (JStr [])),
       metadata = nullish_or (map_of p ''metadata'')
                    (Some (JObj [(''title'', JStr []), (''description'', JStr []),
                                 (''keywords'', JArr [])])),
       customizations = nullish_or (map_of p ''customizations'') (Some (JObj [])),
       is_published = truthy (map_of p ''is_published''),
       view_count = nullish_or (map_of p ''view_count'') (Some (JNum 0 0)),
       last_viewed_at = nullish_or (map_of p ''last_viewed_at'') (Some JNull),
       Portfolio.created_at = map_of p ''created_at'',
       Portfolio.updated_at = nullish_or (map_of p ''updated_at'') (map_of p ''created_at'') \<rparr>"

text \<open>The page's state, \<^verbatim>\<open>useState\<close> lines 41-44 (\<open>None\<close> is the \<^verbatim>\<open>null\<close> profile).\<close>

record dashboard =
  profile :: "json option"
  resumes :: "Resume list"
  portfolios :: "Portfolio list"
  loading :: bool

definition initial_dashboard :: dashboard where
  "initial_dashboard = \<lparr> profile = None, resumes = [], portfolios = [], loading = True \<rparr>"

text \<open>The \<^verbatim>\<open>data\<close> of the three reads of lines 66-78 (\<open>None\<close> is \<^verbatim>\<open>null\<close>).\<close>

record reads =
  profileRes :: "json option"
  resumesRes :: "db_row list option"
  portfoliosRes :: "db_row list option"

text \<open>
  \<^verbatim>\<open>fetchData\<close>, lines 48-131: \<open>getUser\<close> is the identifier of the signed-in user, if
  there is one and no error; \<open>queries\<close> is what \<^verbatim>\<open>Promise.all\<close> resolves to, or what it
  rejects with.
\<close>

definition fetchData :: "string option \<Rightarrow> thrown + reads \<Rightarrow> dashboard \<Rightarrow> dashboard" where
  "fetchData getUser queries d =
     (case getUser of
        None \<Rightarrow> d\<lparr>loading := False\<rparr>
      | Some userId \<Rightarrow>
          (case queries of
             Inl e \<Rightarrow> d\<lparr>loading := False\<rparr>
           | Inr res \<Rightarrow>
               (let d1 = (if truthy (profileRes res) then d\<lparr>profile := profileRes res\<rparr> else d);
                    d2 = (case resumesRes res of
                            None \<Rightarrow> d1
                          | Some rows \<Rightarrow> d1\<lparr>resumes := map (Resume_of userId) rows\<rparr>);
                    d3 = (case portfoliosRes res of
                            None \<Rightarrow> d2
                          | Some rows \<Rightarrow> d2\<lparr>portfolios := map (Portfolio_of userId) rows\<rparr>)
                in d3\<lparr>loading := False\<rparr>)))"

section \<open>Concrete inputs\<close>

text \<open>A store that accepts every insert and returns the new row's \<^verbatim>\<open>id\<close>, and one that
  refuses every insert.\<close>

definition store_ok :: "string \<Rightarrow> row \<Rightarrow> insert_result" where
  "store_ok t r = \<lparr> data = Some (JObj [(''id'', JStr (''id-of-'' @ t))]), error = Some JNull \<rparr>"

definition store_down :: "string \<Rightarrow> row \<Rightarrow> insert_result" where
  "store_down t r =
     \<lparr> data = Some JNull, error = Some (JObj [(''message'', JStr ''connection refused'')]) \<rparr>"

text \<open>A request with the given body and credential, answered by the generation service
  with the given text, at the clock time \<open>1700000000000\<close>.\<close>

definition sample_env ::
  "json \<Rightarrow> string option \<Rightarrow> string \<Rightarrow> (string \<Rightarrow> row \<Rightarrow> insert_result) \<Rightarrow> env" where
  "sample_env payload key reply store =
     \<lparr> request_json = Inr payload,
       GOOGLE_GENERATIVE_AI_API_KEY = key,
       generateText = (\<lambda>prompt. Inr reply),
       supabase_insert = store,
       Date_now = 1700000000000 \<rparr>"

definition john_doe :: json where
  "john_doe = JObj [(''personal_info'', JObj [(''name'', JStr ''John Doe'')])]"

definition request_with_user :: json where
  "request_with_user = JObj [(''structuredData'', john_doe), (''userId'', JStr ''u1'')]"

definition request_anonymous :: json where
  "request_anonymous = JObj [(''structuredData'', john_doe)]"

text \<open>The response of the specification's example, and its three parts.\<close>

definition example_prose_before :: string where
  "example_prose_before = ''Sure! ''"

definition example_members :: string where
  \<open>example_members = ''"html":"<p>x</p>","css":"","js":""''\<close>

definition example_prose_after :: string where
  "example_prose_after = '' Hope that helps!''"

definition example_reply :: string where
  "example_reply =
     example_prose_before @ CHR ''{'' # example_members @ ''}'' @ example_prose_after"

definition example_object :: json where
  "example_object = JObj [(''html'', JStr ''<p>x</p>''), (''css'', JStr []), (''js'', JStr [])]"

text \<open>Rows as the dashboard's reads may return them: without the optional columns.\<close>

definition bare_resume_row :: db_row where
  "bare_resume_row =
     [(''id'', JStr ''r1''), (''filename'', JStr ''cv.pdf''), (''file_size'', JNum 1024 0),
      (''created_at'', JStr ''2024-01-01T00:00:00Z'')]"

definition bare_portfolio_row :: db_row where
  "bare_portfolio_row =
     [(''id'', JStr ''p1''), (''metadata'', JNull), (''created_at'', JStr ''2024-01-01T00:00:00Z'')]"

text \<open>A reply whose object has no \<^verbatim>\<open>css\<close> and no \<^verbatim>\<open>js\<close>, and one whose prose has braces
  of its own before the object.\<close>

definition html_only_reply :: string where
  \<open>html_only_reply = ''Here you go: {"html":"<p>x</p>"}''\<close>

definition html_only_object :: json where
  "html_only_object = JObj [(''html'', JStr ''<p>x</p>'')]"

definition embedded_object_text :: string where
  \<open>embedded_object_text = ''{"html":"a"}''\<close>

definition braces_in_prose_reply :: string where
  "braces_in_prose_reply = ''Replace {name} below. '' @ embedded_object_text @ '' Done.''"

text \<open>The row the handler builds for \<^verbatim>\<open>portfolios\<close> from \<open>request_with_user\<close> at the sample
  clock time, when the store has answered the first insert with the identifier
  \<open>id-of-portfolio_data\<close>; the three contents are left open.\<close>

definition john_doe_portfolio_row :: "json \<Rightarrow> json \<Rightarrow> json \<Rightarrow> row" where
  "john_doe_portfolio_row html css js =
     [(''user_id'', Value (JStr ''u1'')),
      (''portfolio_data_id'', Value (JStr ''id-of-portfolio_data'')),
      (''title'', Value (JStr ''John Doe'')),
      (''slug'', Value (JStr ''john-doe-1700000000000'')),
      (''template_id'', Value (JStr ''default-template'')),
      (''html_content'', Value html),
      (''css_content'', Value css),
      (''js_content'', Value js),
      (''metadata'', Value (JObj
         [(''title'', JStr ''John Doe''),
          (''description'', JStr ''Portfolio generated by AI''),
          (''keywords'', JArr [JStr ''portfolio'', JStr ''resume'', JStr ''AI''])])),
      (''customizations'', Value default_customizations),
      (''is_published'', Value (JBool False)),
      (''view_count'', Value (JNum 0 0))]"

definition sample_reads :: reads where
  "sample_reads =
     \<lparr> profileRes = Some (JObj [(''id'', JStr ''u1'')]),
       resumesRes = Some [bare_resume_row],
       portfoliosRes = Some [bare_portfolio_row] \<rparr>"

section \<open>Facts about the string operations\<close>

lemma indexOf_lower: "- 1 \<le> indexOf s c"
  by (induction s) (auto simp: Let_def)

lemma indexOf_absent: "indexOf s c = - 1 \<longleftrightarrow> c \<notin> set s"
proof (induction s)
  case Nil
  show ?case by simp
next
  case (Cons x xs)
  from indexOf_lower [of xs c] Cons show ?case
    by (auto simp: Let_def)
qed

lemma lastIndexOf_lower: "- 1 \<le> lastIndexOf s c"
  by (induction s) (auto simp: Let_def)

lemma lastIndexOf_absent: "lastIndexOf s c = - 1 \<longleftrightarrow> c \<notin> set s"
proof (induction s)
  case Nil
  show ?case by simp
next
  case (Cons x xs)
  from lastIndexOf_lower [of xs c] Cons show ?case
    by (auto simp: Let_def)
qed

lemma indexOf_first: "c \<notin> set pre \<Longrightarrow> indexOf (pre @ c # rest) c = int (length pre)"
  by (induction pre) (auto simp: Let_def)

lemma lastIndexOf_append:
  "c \<in> set ys \<Longrightarrow> lastIndexOf (xs @ ys) c = int (length xs) + lastIndexOf ys c"
proof (induction xs)
  case Nil
  show ?case by simp
next
  case (Cons x xs)
  from Cons lastIndexOf_absent [of ys c] lastIndexOf_lower [of ys c] show ?case
    by (auto simp: Let_def)
qed

lemma lastIndexOf_last:
  assumes "c \<notin> set post"
  shows "lastIndexOf (xs @ c # post) c = int (length xs)"
proof -
  from assms have "lastIndexOf post c = - 1"
    by (simp add: lastIndexOf_absent)
  then have "lastIndexOf (c # post) c = 0"
    by simp
  then show ?thesis
    using lastIndexOf_append [of c "c # post" xs] by simp
qed

lemma substring_ordered:
  assumes "0 \<le> i" and "i \<le> j" and "j \<le> int (length s)"
  shows "substring s i j = take (nat (j - i)) (drop (nat i) s)"
  using assms by (simp add: substring_def Let_def min_def max_def)

lemma substring_middle:
  "substring (pre @ mid @ post) (int (length pre)) (int (length pre) + int (length mid)) = mid"
proof -
  have "substring (pre @ mid @ post) (int (length pre)) (int (length pre) + int (length mid))
      = take (nat (int (length pre) + int (length mid) - int (length pre)))
          (drop (nat (int (length pre))) (pre @ mid @ post))"
    by (rule substring_ordered) simp_all
  also have "\<dots> = mid"
    by simp
  finally show ?thesis .
qed

text \<open>When the last \<^verbatim>\<open>}\<close> comes before the first \<^verbatim>\<open>{\<close>, \<^verbatim>\<open>substring\<close> swaps its arguments:
  what is extracted is the text strictly between the two.\<close>

lemma substring_swapped:
  assumes "0 \<le> j" and "j \<le> i" and "i \<le> int (length s)"
  shows "substring s i j = take (nat (i - j)) (drop (nat j) s)"
  using assms by (simp add: substring_def Let_def min_def max_def)

lemma indexOf_upper: "indexOf s c < int (length s)"
  by (induction s) (auto simp: Let_def)

lemma lastIndexOf_upper: "lastIndexOf s c < int (length s)"
  by (induction s) (auto simp: Let_def)

section \<open>Evaluation rules\<close>

lemma char_of_nat_bits:
  "char_of (n::nat) = Char (odd n) (odd (n div 2)) (odd (n div 4)) (odd (n div 8))
     (odd (n div 16)) (odd (n div 32)) (odd (n div 64)) (odd (n div 128))"
  by (simp add: char_of_def bit_iff_odd)

lemma digits_numeral:
  "digits (numeral k) =
     (if numeral k < (10::nat) then [char_of (48 + (numeral k :: nat))]
      else digits (numeral k div 10) @ [char_of (48 + (numeral k :: nat) mod 10)])"
  by (rule digits.simps)

lemma digits_0: "digits 0 = ''0''"
  by (simp add: digits.simps char_of_nat_bits)

lemma digits_1: "digits (Suc 0) = ''1''"
  by (simp add: digits.simps char_of_nat_bits)

lemma tokenize_Nil: "tokenize [] = Some []"
  by (simp add: tokenize.simps)

lemma tokenize_Cons:
  "tokenize (c # cs) =
     (if is_json_ws c then tokenize cs
      else (case next_token (c # cs) of
              None \<Rightarrow> None
            | Some (t, rest) \<Rightarrow> map_option ((#) t) (tokenize rest)))"
  by (simp add: tokenize.simps [of "c # cs"] tokenize.simps [of cs])

lemmas json_eval = JSON_parse_def tokenize_Nil tokenize_Cons next_token_def punctuation_def is_json_ws_def
  is_digit_def unescape_def hex_val_def has_prefix_def scan_number_def scan_frac_def scan_exp_def
  nat_of_digits_def

lemmas string_eval = show_int_def digits_numeral digits_0 digits_1 toLowerCase_def lower_char_def
  is_space_def char_of_nat_bits

lemmas handler_eval = POST_def POST_try_def after_generation_def persist_def generatedCode_def
  jsonString_def substring_def portfolios_row_def portfolio_data_row_def make_slug_def
  slug_base_def personal_name_def coalesce_def or_else_def default_metadata_def
  default_customizations_def

lemmas input_eval = sample_env_def store_ok_def store_down_def john_doe_def request_with_user_def
  request_anonymous_def example_reply_def example_prose_before_def example_members_def
  example_prose_after_def example_object_def html_only_reply_def html_only_object_def
  embedded_object_text_def braces_in_prose_reply_def john_doe_portfolio_row_def

section \<open>The handler, step by step\<close>

lemma member_present:
  "get_prop payload k = Some v \<Longrightarrow> member (Some payload) k = Inr (Some v)"
  by (cases payload) simp_all

lemma POST_try_reaches_generation:
  assumes "request_json E = Inr payload"
    and "get_prop payload ''structuredData'' = Some sd"
    and "truthy (Some sd)"
    and "GOOGLE_GENERATIVE_AI_API_KEY E = Some key" and "key \<noteq> []"
    and "generateText E sd = Inr reply"
  shows "POST_try E =
           (GenerateText sd # fst (after_generation E (get_prop payload ''userId'') sd reply),
            snd (after_generation E (get_prop payload ''userId'') sd reply))"
  using assms member_present [OF assms(2)]
  by (simp add: POST_try_def Let_def split: prod.splits)

lemma POST_caught:
  "POST_try E = (calls, Inl e) \<Longrightarrow> POST E = (calls, success_response fallbackPortfolio)"
  by (simp add: POST_def)

lemma POST_returned:
  "POST_try E = (calls, Inr r) \<Longrightarrow> POST E = (calls, r)"
  by (simp add: POST_def)

lemma generatedCode_fails:
  "CHR ''{'' \<notin> set reply \<or> CHR ''}'' \<notin> set reply
     \<or> (\<exists>s. jsonString reply = Inr s \<and> JSON_parse s = None)
   \<Longrightarrow> \<exists>e. generatedCode reply = Inl e"
  by (auto simp: generatedCode_def jsonString_def Let_def indexOf_absent lastIndexOf_absent
      split: sum.splits option.splits)

lemma after_generation_anonymous:
  "generatedCode reply = Inr code \<Longrightarrow> \<not> truthy userId \<Longrightarrow>
   after_generation E userId sd reply = ([], Inr (success_response code))"
  by (simp add: after_generation_def)

lemma after_generation_identified:
  "generatedCode reply = Inr code \<Longrightarrow> truthy (Some u) \<Longrightarrow>
   after_generation E (Some u) sd reply =
     (fst (persist E u sd code),
      case snd (persist E u sd code) of
        Some e \<Rightarrow> Inl e
      | None \<Rightarrow> Inr (success_response code))"
  by (simp add: after_generation_def split: prod.splits)

lemma POST_anonymous:
  assumes "request_json E = Inr payload"
    and "get_prop payload ''structuredData'' = Some sd"
    and "truthy (Some sd)"
    and "GOOGLE_GENERATIVE_AI_API_KEY E = Some key" and "key \<noteq> []"
    and "generateText E sd = Inr reply"
    and "generatedCode reply = Inr code"
    and "\<not> truthy (get_prop payload ''userId'')"
  shows "POST E = ([GenerateText sd], success_response code)"
proof -
  from after_generation_anonymous [OF assms(7,8)] POST_try_reaches_generation [OF assms(1-6)]
  have "POST_try E = ([GenerateText sd], Inr (success_response code))"
    by simp
  then show ?thesis by (rule POST_returned)
qed

lemma POST_identified:
  assumes "request_json E = Inr payload"
    and "get_prop payload ''structuredData'' = Some sd"
    and "truthy (Some sd)"
    and "GOOGLE_GENERATIVE_AI_API_KEY E = Some key" and "key \<noteq> []"
    and "generateText E sd = Inr reply"
    and "generatedCode reply = Inr code"
    and "get_prop payload ''userId'' = Some u"
    and "truthy (Some u)"
  shows "POST E =
           (GenerateText sd # fst (persist E u sd code),
            case snd (persist E u sd code) of
              Some e \<Rightarrow> success_response fallbackPortfolio
            | None \<Rightarrow> success_response code)"
proof -
  from after_generation_identified [OF assms(7,9)] POST_try_reaches_generation [OF assms(1-6)]
    assms(8)
  have "POST_try E =
          (GenerateText sd # fst (persist E u sd code),
           case snd (persist E u sd code) of
             Some e \<Rightarrow> Inl e
           | None \<Rightarrow> Inr (success_response code))"
    by simp
  then show ?thesis
    by (simp add: POST_def split: option.splits)
qed

lemma POST_response_cases:
  assumes "request_json E = Inr payload"
    and "get_prop payload ''structuredData'' = Some sd"
    and "truthy (Some sd)"
    and "GOOGLE_GENERATIVE_AI_API_KEY E = Some key" and "key \<noteq> []"
    and "generateText E sd = Inr reply"
    and "generatedCode reply = Inr code"
  shows "snd (POST E) = success_response code \<or> snd (POST E) = success_response fallbackPortfolio"
proof (cases "truthy (get_prop payload ''userId'')")
  case False
  from POST_anonymous [OF assms False] show ?thesis
    by simp
next
  case True
  then obtain u where u: "get_prop payload ''userId'' = Some u"
    by (cases "get_prop payload ''userId''") auto
  with True have "truthy (Some u)"
    by simp
  from POST_identified [OF assms u this] show ?thesis
    by (simp split: option.splits)
qed

text \<open>
  When both braces are present and the last \<^verbatim>\<open>}\<close> comes before the first \<^verbatim>\<open>{\<close>, the guard of
  line 55 lets the reply through and the text handed to the parser is what stands
  strictly between the two braces.
\<close>

lemma jsonString_reversed:
  assumes "lastIndexOf reply CHR ''}'' \<noteq> - 1"
    and "lastIndexOf reply CHR ''}'' < indexOf reply CHR ''{''"
  shows "jsonString reply =
           Inr (take (nat (indexOf reply CHR ''{'' - lastIndexOf reply CHR ''}'' - 1))
                  (drop (nat (lastIndexOf reply CHR ''}'' + 1)) reply))"
proof -
  let ?i = "indexOf reply CHR ''{''" and ?j = "lastIndexOf reply CHR ''}''"
  from assms lastIndexOf_lower [of reply "CHR ''}''"] have j: "0 \<le> ?j"
    by simp
  with assms have i: "?i \<noteq> - 1"
    by simp
  from indexOf_upper [of reply "CHR ''{''"] have "?i \<le> int (length reply)"
    by simp
  with j assms have "substring reply ?i (?j + 1) = take (nat (?i - (?j + 1))) (drop (nat (?j + 1)) reply)"
    by (intro substring_swapped) simp_all
  with i assms show ?thesis
    by (simp add: jsonString_def Let_def algebra_simps)
qed

subsection \<open>The two inserts\<close>





lemma portfolios_row_fields:
  assumes "portfolios_row u pd sd code now = Inr row2"
  shows "\<exists>s. make_slug sd now = Inr s
       \<and> map_of row2 ''title'' = Some (Value (coalesce (personal_name sd) (JStr ''Untitled Portfolio'')))
       \<and> map_of row2 ''slug'' = Some (Value (JStr s))
       \<and> map_of row2 ''html_content'' = Some (Value (coalesce (get_prop code ''html'') (JStr [])))
       \<and> map_of row2 ''css_content'' = Some (Value (coalesce (get_prop code ''css'') (JStr [])))
       \<and> map_of row2 ''js_content'' = Some (Value (coalesce (get_prop code ''js'') (JStr [])))
       \<and> map_of row2 ''is_published'' = Some (Value (JBool False))
       \<and> map_of row2 ''view_count'' = Some (Value (JNum 0 0))"
proof -
  from assms obtain i s where i: "member pd ''id'' = Inr i" and s: "make_slug sd now = Inr s"
    by (auto simp: portfolios_row_def split: sum.splits)
  from assms i s have nn: "code \<noteq> JNull"
    by (auto simp: portfolios_row_def)
  then have m: "member (Some code) k = Inr (get_prop code k)" for k
    by (cases code) simp_all
  from assms i s m have "row2 =
      [(''user_id'', Value u)] @
      (case i of None \<Rightarrow> [] | Some j \<Rightarrow> [(''portfolio_data_id'', Value j)]) @
      [(''title'', Value (coalesce (personal_name sd) (JStr ''Untitled Portfolio''))),
       (''slug'', Value (JStr s)),
       (''template_id'', Value (coalesce (opt_member (Some sd) ''template_id'')
                                  (JStr ''default-template''))),
       (''html_content'', Value (coalesce (get_prop code ''html'') (JStr []))),
       (''css_content'', Value (coalesce (get_prop code ''css'') (JStr []))),
       (''js_content'', Value (coalesce (get_prop code ''js'') (JStr []))),
       (''metadata'', Value (coalesce (opt_member (Some sd) ''metadata'') (default_metadata sd))),
       (''customizations'', Value (coalesce (opt_member (Some sd) ''customizations'')
                                     default_customizations)),
       (''is_published'', Value (JBool False)),
       (''view_count'', Value (JNum 0 0))]"
    by (simp add: portfolios_row_def)
  with s show ?thesis
    by (cases i) simp_all
qed

lemma make_slug_cases:
  assumes "make_slug sd now = Inr s"
  shows "nullish (personal_name sd) \<and> s = ''portfolio-'' @ show_int now
       \<or> (\<exists>n. personal_name sd = Some (JStr n)
              \<and> s = replace_spaces (toLowerCase n) @ ''-'' @ show_int now)"
proof (cases "personal_name sd")
  case None
  with assms show ?thesis
    by (auto simp: make_slug_def slug_base_def)
next
  case (Some v)
  with assms show ?thesis
    by (cases v) (auto simp: make_slug_def slug_base_def)
qed

lemma coalesce_not_null: "coalesce a (JStr []) \<noteq> JNull"
proof (cases a)
  case None
  then show ?thesis by (simp add: coalesce_def)
next
  case (Some v)
  then show ?thesis by (cases v) (simp_all add: coalesce_def)
qed

text \<open>An insert into \<^verbatim>\<open>portfolios\<close> is only ever the second call of \<open>persist\<close>.\<close>

lemma POST_portfolios_insert:
  assumes "request_json E = Inr payload"
    and "get_prop payload ''structuredData'' = Some sd"
    and "Insert ''portfolios'' row2 \<in> set (fst (POST E))"
  shows "\<exists>u reply code.
           get_prop payload ''userId'' = Some u
         \<and> generateText E sd = Inr reply
         \<and> generatedCode reply = Inr code
         \<and> portfolios_row u (data (supabase_insert E ''portfolio_data'' (portfolio_data_row u sd)))
               sd code (Date_now E) = Inr row2"
proof -
  note m = member_present [OF assms(2)]
  have calls: "fst (POST E) = fst (POST_try E)"
    by (simp add: POST_def split: prod.splits sum.splits)
  from assms(3) calls have nonempty: "Insert ''portfolios'' row2 \<in> set (fst (POST_try E))"
    by simp
  from nonempty assms(1) m have t: "truthy (Some sd)"
    by (auto simp: POST_try_def split: if_splits)
  from nonempty assms(1) m t obtain key where
    k: "GOOGLE_GENERATIVE_AI_API_KEY E = Some key" "key \<noteq> []"
    by (cases "GOOGLE_GENERATIVE_AI_API_KEY E") (auto simp: POST_try_def split: if_splits)
  from nonempty assms(1) m t k obtain reply where r: "generateText E sd = Inr reply"
    by (cases "generateText E sd") (auto simp: POST_try_def)
  note reach = POST_try_reaches_generation [OF assms(1,2) t k r]
  from nonempty reach obtain code where c: "generatedCode reply = Inr code"
    by (cases "generatedCode reply") (auto simp: after_generation_def)
  from nonempty reach c have tu: "truthy (get_prop payload ''userId'')"
    by (auto simp: after_generation_def split: if_splits)
  then obtain u where u: "get_prop payload ''userId'' = Some u"
    by (cases "get_prop payload ''userId''") auto
  let ?res1 = "supabase_insert E ''portfolio_data'' (portfolio_data_row u sd)"
  from nonempty reach c tu u
  have p: "Insert ''portfolios'' row2 \<in> set (fst (persist E u sd code))"
    by (auto simp: after_generation_def split: prod.splits)
  then have ok: "\<not> truthy (error ?res1)"
    by (auto simp: persist_def Let_def split: if_splits)
  with p have "portfolios_row u (data ?res1) sd code (Date_now E) = Inr row2"
    by (cases "portfolios_row u (data ?res1) sd code (Date_now E)")
       (auto simp: persist_def Let_def split: if_splits)
  with u r c show ?thesis
    by blast
qed

subsection \<open>The handler on the concrete inputs\<close>

lemma example_reply_parsed: "generatedCode example_reply = Inr example_object"
  by (simp add: generatedCode_def jsonString_def substring_def input_eval json_eval)

lemma html_only_reply_parsed: "generatedCode html_only_reply = Inr html_only_object"
  by (simp add: generatedCode_def jsonString_def substring_def input_eval json_eval)

lemma POST_example_with_user:
  "POST (sample_env request_with_user (Some ''key'') example_reply store_ok)
     = ([GenerateText john_doe,
         Insert ''portfolio_data'' (portfolio_data_row (JStr ''u1'') john_doe),
         Insert ''portfolios'' (john_doe_portfolio_row (JStr ''<p>x</p>'') (JStr []) (JStr []))],
        success_response example_object)"
  by (simp add: handler_eval input_eval json_eval string_eval)

lemma POST_html_only_with_user:
  "POST (sample_env request_with_user (Some ''key'') html_only_reply store_ok)
     = ([GenerateText john_doe,
         Insert ''portfolio_data'' (portfolio_data_row (JStr ''u1'') john_doe),
         Insert ''portfolios'' (john_doe_portfolio_row (JStr ''<p>x</p>'') (JStr []) (JStr []))],
        success_response html_only_object)"
  by (simp add: handler_eval input_eval json_eval string_eval)

section \<open>Claims about the generation endpoint\<close>



text \<open>
  Claim C2.  When the request carries structured data, the credential is configured and
  the generation service answers, a reply without \<^verbatim>\<open>{\<close>, a reply without \<^verbatim>\<open>}\<close>, and a reply
  whose extracted text is not JSON all end the same way: the only call made is the
  generation call (no insert is attempted) and the caller receives status 200 with
  \<^verbatim>\<open>success: true\<close> and the fixed fallback triple.
\<close>

theorem fallback_on_unparseable_reply:
  assumes "request_json E = Inr payload"
    and "get_prop payload ''structuredData'' = Some sd"
    and "truthy (Some sd)"
    and "GOOGLE_GENERATIVE_AI_API_KEY E = Some key" and "key \<noteq> []"
    and "generateText E sd = Inr reply"
    and "CHR ''{'' \<notin> set reply \<or> CHR ''}'' \<notin> set reply
         \<or> (\<exists>s. jsonString reply = Inr s \<and> JSON_parse s = None)"
  shows "POST E = ([GenerateText sd], success_response fallbackPortfolio)"
proof -
  from generatedCode_fails [OF assms(7)] obtain e where "generatedCode reply = Inl e" ..
  then have "after_generation E (get_prop payload ''userId'') sd reply = ([], Inl e)"
    by (simp add: after_generation_def)
  with POST_try_reaches_generation [OF assms(1-6)]
  have "POST_try E = ([GenerateText sd], Inl e)" by simp
  then show ?thesis by (rule POST_caught)
qed

theorem fallback_on_unparseable_reply_witness:
  "POST (sample_env request_with_user (Some ''key'') ''I cannot help with that.'' store_ok)
     = ([GenerateText john_doe], success_response fallbackPortfolio)
   \<and> POST (sample_env request_with_user (Some ''key'') ''{ html: oops }'' store_ok)
     = ([GenerateText john_doe], success_response fallbackPortfolio)"
proof
  show "POST (sample_env request_with_user (Some ''key'') ''I cannot help with that.'' store_ok)
     = ([GenerateText john_doe], success_response fallbackPortfolio)"
    by (rule fallback_on_unparseable_reply [where payload = request_with_user and key = "''key''"
          and reply = "''I cannot help with that.''"])
       (simp_all add: sample_env_def request_with_user_def john_doe_def)
  have "jsonString ''{ html: oops }'' = Inr ''{ html: oops }''"
    by (simp add: jsonString_def substring_def)
  moreover have "JSON_parse ''{ html: oops }'' = None"
    by (simp add: json_eval)
  ultimately show "POST (sample_env request_with_user (Some ''key'') ''{ html: oops }'' store_ok)
     = ([GenerateText john_doe], success_response fallbackPortfolio)"
    by (intro fallback_on_unparseable_reply [where payload = request_with_user and key = "''key''"
          and reply = "''{ html: oops }''"])
       (simp_all add: sample_env_def request_with_user_def john_doe_def)
qed

text \<open>
  Claim C3, amended.  When the request carries structured data and the credential is
  not configured (absent or empty), the handler calls neither the generation service
  nor the store; the error it throws is caught by its own \<^verbatim>\<open>catch\<close>, and the caller
  receives status 200 with \<^verbatim>\<open>success: true\<close> and the fixed fallback triple.
\<close>

theorem missing_credential_fallback:
  assumes "request_json E = Inr payload"
    and "get_prop payload ''structuredData'' = Some sd"
    and "truthy (Some sd)"
    and "GOOGLE_GENERATIVE_AI_API_KEY E = None \<or> GOOGLE_GENERATIVE_AI_API_KEY E = Some []"
  shows "POST E = ([], success_response fallbackPortfolio)"
  using assms member_present [OF assms(2)]
  by (auto simp: POST_def POST_try_def)

theorem missing_credential_fallback_witness:
  "POST (sample_env request_with_user None example_reply store_ok)
     = ([], success_response fallbackPortfolio)"
  by (rule missing_credential_fallback [where payload = request_with_user and sd = john_doe])
     (simp_all add: sample_env_def request_with_user_def john_doe_def)

text \<open>
  The claim as written says the missing credential surfaces as a 5xx or an exception and
  is not recovered through the fallback path; the handler answers 200 with the
  fallback.
\<close>

theorem missing_credential_counterexample:
  "GOOGLE_GENERATIVE_AI_API_KEY (sample_env request_with_user None example_reply store_ok) = None
   \<and> snd (POST (sample_env request_with_user None example_reply store_ok))
       = success_response fallbackPortfolio
   \<and> status (snd (POST (sample_env request_with_user None example_reply store_ok))) = 200"
  by (simp add: POST_def POST_try_def sample_env_def request_with_user_def john_doe_def
      success_response_def)

text \<open>
  Claim C4, amended.  When the request carries structured data, the credential is
  configured and the reply parses, the response is the fallback or carries the parsed
  value exactly as parsed: a key missing from it stays missing.  The defaults apply to
  the stored row: whenever a row is inserted into \<^verbatim>\<open>portfolios\<close>, its \<^verbatim>\<open>html_content\<close>,
  \<^verbatim>\<open>css_content\<close> and \<^verbatim>\<open>js_content\<close> are the parsed value's \<^verbatim>\<open>html\<close>, \<^verbatim>\<open>css\<close> and \<^verbatim>\<open>js\<close>, with the
  empty string in place of a missing or \<^verbatim>\<open>null\<close> one, and so never \<^verbatim>\<open>null\<close>.
\<close>

theorem defaults_apply_to_stored_content:
  assumes "request_json E = Inr payload"
    and "get_prop payload ''structuredData'' = Some sd"
    and "truthy (Some sd)"
    and "GOOGLE_GENERATIVE_AI_API_KEY E = Some key" and "key \<noteq> []"
    and "generateText E sd = Inr reply"
    and "generatedCode reply = Inr code"
  shows "(snd (POST E) = success_response code \<or> snd (POST E) = success_response fallbackPortfolio)
       \<and> (\<forall>row2. Insert ''portfolios'' row2 \<in> set (fst (POST E)) \<longrightarrow>
              map_of row2 ''html_content'' = Some (Value (coalesce (get_prop code ''html'') (JStr [])))
            \<and> map_of row2 ''css_content'' = Some (Value (coalesce (get_prop code ''css'') (JStr [])))
            \<and> map_of row2 ''js_content'' = Some (Value (coalesce (get_prop code ''js'') (JStr [])))
            \<and> map_of row2 ''html_content'' \<noteq> Some (Value JNull)
            \<and> map_of row2 ''css_content'' \<noteq> Some (Value JNull)
            \<and> map_of row2 ''js_content'' \<noteq> Some (Value JNull))"
proof (intro conjI allI impI)
  from POST_response_cases [OF assms]
  show "snd (POST E) = success_response code \<or> snd (POST E) = success_response fallbackPortfolio" .
next
  fix row2
  assume "Insert ''portfolios'' row2 \<in> set (fst (POST E))"
  from POST_portfolios_insert [OF assms(1,2) this] assms(6,7) obtain u pd where
    "portfolios_row u pd sd code (Date_now E) = Inr row2"
    by auto
  from portfolios_row_fields [OF this]
  have f: "map_of row2 ''html_content'' = Some (Value (coalesce (get_prop code ''html'') (JStr [])))"
    "map_of row2 ''css_content'' = Some (Value (coalesce (get_prop code ''css'') (JStr [])))"
    "map_of row2 ''js_content'' = Some (Value (coalesce (get_prop code ''js'') (JStr [])))"
    by blast+
  from f show "map_of row2 ''html_content'' = Some (Value (coalesce (get_prop code ''html'') (JStr [])))"
    "map_of row2 ''css_content'' = Some (Value (coalesce (get_prop code ''css'') (JStr [])))"
    "map_of row2 ''js_content'' = Some (Value (coalesce (get_prop code ''js'') (JStr [])))"
    by blast+
  from f coalesce_not_null show "map_of row2 ''html_content'' \<noteq> Some (Value JNull)"
    "map_of row2 ''css_content'' \<noteq> Some (Value JNull)"
    "map_of row2 ''js_content'' \<noteq> Some (Value JNull)"
    by auto
qed

theorem defaults_apply_to_stored_content_witness:
  "snd (POST (sample_env request_with_user (Some ''key'') html_only_reply store_ok))
     = success_response html_only_object
   \<and> map_of (john_doe_portfolio_row (JStr ''<p>x</p>'') (JStr []) (JStr [])) ''html_content''
       = Some (Value (JStr ''<p>x</p>''))
   \<and> map_of (john_doe_portfolio_row (JStr ''<p>x</p>'') (JStr []) (JStr [])) ''css_content''
       = Some (Value (JStr []))
   \<and> map_of (john_doe_portfolio_row (JStr ''<p>x</p>'') (JStr []) (JStr [])) ''js_content''
       = Some (Value (JStr []))"
proof -
  let ?E = "sample_env request_with_user (Some ''key'') html_only_reply store_ok"
  let ?row = "john_doe_portfolio_row (JStr ''<p>x</p>'') (JStr []) (JStr [])"
  have 1: "request_json ?E = Inr request_with_user"
    by (simp add: sample_env_def)
  have 2: "get_prop request_with_user ''structuredData'' = Some john_doe"
    by (simp add: request_with_user_def)
  have 3: "truthy (Some john_doe)"
    by (simp add: john_doe_def)
  have 4: "GOOGLE_GENERATIVE_AI_API_KEY ?E = Some ''key''" "''key'' \<noteq> []"
    by (simp_all add: sample_env_def)
  have 5: "generateText ?E john_doe = Inr html_only_reply"
    by (simp add: sample_env_def)
  have stored: "Insert ''portfolios'' ?row \<in> set (fst (POST ?E))"
    by (simp add: POST_html_only_with_user)
  have d: "coalesce (get_prop html_only_object ''html'') (JStr []) = JStr ''<p>x</p>''"
    "coalesce (get_prop html_only_object ''css'') (JStr []) = JStr []"
    "coalesce (get_prop html_only_object ''js'') (JStr []) = JStr []"
    by (simp_all add: html_only_object_def coalesce_def)
  from defaults_apply_to_stored_content [OF 1 2 3 4 5 html_only_reply_parsed] stored d
  have "map_of ?row ''html_content'' = Some (Value (JStr ''<p>x</p>''))
      \<and> map_of ?row ''css_content'' = Some (Value (JStr []))
      \<and> map_of ?row ''js_content'' = Some (Value (JStr []))"
    by simp
  then show ?thesis
    by (simp add: POST_html_only_with_user)
qed

text \<open>
  The claim as written promises the three fields in the triple returned to the caller.
  For a reply whose object has only \<^verbatim>\<open>html\<close>, the returned triple is that object:
  reading \<^verbatim>\<open>css\<close> or \<^verbatim>\<open>js\<close> from it gives \<^verbatim>\<open>undefined\<close>, not the empty string.
\<close>

theorem returned_content_not_defaulted_counterexample:
  "generatedCode html_only_reply = Inr html_only_object
   \<and> POST (sample_env request_anonymous (Some ''key'') html_only_reply store_ok)
       = ([GenerateText john_doe], success_response html_only_object)
   \<and> opt_member (get_prop (body (success_response html_only_object)) ''portfolio'') ''css'' = None
   \<and> opt_member (get_prop (body (success_response html_only_object)) ''portfolio'') ''js'' = None"
  by (simp add: handler_eval input_eval json_eval success_response_def)

text \<open>
  Claim C5, amended.  For every reply whose first \<^verbatim>\<open>{\<close> is not after its last \<^verbatim>\<open>}\<close>, the
  text handed to the parser is the part of the reply from that \<^verbatim>\<open>{\<close> to that \<^verbatim>\<open>}\<close>, both
  included.  In particular, for a reply made of prose without \<^verbatim>\<open>{\<close>, then an object text
  \<^verbatim>\<open>{...}\<close>, then prose without \<^verbatim>\<open>}\<close>, the extracted text is exactly the object text, and
  when that text is valid JSON the value parsed from the reply is its value.
\<close>

theorem tolerant_extraction:
  "(indexOf reply CHR ''{'' \<noteq> - 1 \<and> indexOf reply CHR ''{'' \<le> lastIndexOf reply CHR ''}'' \<longrightarrow>
      jsonString reply =
        Inr (take (nat (lastIndexOf reply CHR ''}'' + 1 - indexOf reply CHR ''{''))
               (drop (nat (indexOf reply CHR ''{'')) reply))
    \<and> generatedCode reply =
        (case JSON_parse (take (nat (lastIndexOf reply CHR ''}'' + 1 - indexOf reply CHR ''{''))
                            (drop (nat (indexOf reply CHR ''{'')) reply)) of
           None \<Rightarrow> Inl SyntaxError
         | Some v \<Rightarrow> Inr v))
   \<and> (CHR ''{'' \<notin> set before \<and> CHR ''}'' \<notin> set after \<longrightarrow>
        jsonString (before @ CHR ''{'' # inner @ ''}'' @ after) = Inr (CHR ''{'' # inner @ ''}'')
      \<and> (\<forall>v. JSON_parse (CHR ''{'' # inner @ ''}'') = Some v \<longrightarrow>
             generatedCode (before @ CHR ''{'' # inner @ ''}'' @ after) = Inr v))"
proof (intro conjI impI allI)
  assume a: "indexOf reply CHR ''{'' \<noteq> - 1 \<and> indexOf reply CHR ''{'' \<le> lastIndexOf reply CHR ''}''"
  let ?i = "indexOf reply CHR ''{''" and ?j = "lastIndexOf reply CHR ''}''"
  from a indexOf_lower [of reply "CHR ''{''"] have i: "0 \<le> ?i" by simp
  with a have j: "?j \<noteq> - 1" by simp
  from lastIndexOf_upper [of reply "CHR ''}''"] have "?j + 1 \<le> int (length reply)" by simp
  with i a have "substring reply ?i (?j + 1) = take (nat (?j + 1 - ?i)) (drop (nat ?i) reply)"
    by (intro substring_ordered) simp_all
  with a j show js: "jsonString reply = Inr (take (nat (?j + 1 - ?i)) (drop (nat ?i) reply))"
    by (simp add: jsonString_def Let_def)
  then show "generatedCode reply =
      (case JSON_parse (take (nat (?j + 1 - ?i)) (drop (nat ?i) reply)) of
         None \<Rightarrow> Inl SyntaxError
       | Some v \<Rightarrow> Inr v)"
    by (simp add: generatedCode_def)
next
  assume b: "CHR ''{'' \<notin> set before \<and> CHR ''}'' \<notin> set after"
  let ?obj = "CHR ''{'' # inner @ ''}''"
  let ?reply = "before @ CHR ''{'' # inner @ ''}'' @ after"
  from b have i: "indexOf ?reply CHR ''{'' = int (length before)"
    by (simp add: indexOf_first)
  from b lastIndexOf_last [of "CHR ''}''" after "before @ CHR ''{'' # inner"]
  have j: "lastIndexOf ?reply CHR ''}'' = int (length before) + int (length inner) + 1"
    by simp
  have e: "lastIndexOf ?reply CHR ''}'' + 1 = int (length before) + int (length ?obj)"
    using j by simp
  have "substring (before @ ?obj @ after) (int (length before))
          (int (length before) + int (length ?obj)) = ?obj"
    by (rule substring_middle)
  then have s: "substring ?reply (int (length before)) (int (length before) + int (length ?obj))
      = ?obj"
    by simp
  from i j have "jsonString ?reply =
      Inr (substring ?reply (indexOf ?reply CHR ''{'') (lastIndexOf ?reply CHR ''}'' + 1))"
    by (simp add: jsonString_def Let_def)
  also have "\<dots> = Inr ?obj"
    by (simp only: i e s)
  finally show js: "jsonString ?reply = Inr ?obj" .
  fix v
  assume "JSON_parse ?obj = Some v"
  with js show "generatedCode ?reply = Inr v"
    by (simp add: generatedCode_def)
qed

theorem tolerant_extraction_witness:
  "jsonString example_reply = Inr (CHR ''{'' # example_members @ ''}'')
   \<and> generatedCode example_reply = Inr example_object"
proof -
  have p: "JSON_parse (CHR ''{'' # example_members @ ''}'') = Some example_object"
    by (simp add: input_eval json_eval)
  have b: "CHR ''{'' \<notin> set example_prose_before \<and> CHR ''}'' \<notin> set example_prose_after"
    by (simp add: input_eval)
  from tolerant_extraction [of example_reply example_prose_before example_prose_after example_members]
    b p show ?thesis
    by (simp add: example_reply_def)
qed

text \<open>
  The claim as written covers every reply with prose around a valid object.  When the
  prose before the object has a \<^verbatim>\<open>{\<close> of its own, the extracted text starts there, is not
  JSON, and the embedded object is not what the handler gets.
\<close>

theorem braces_in_prose_counterexample:
  "JSON_parse embedded_object_text = Some (JObj [(''html'', JStr ''a'')])
   \<and> braces_in_prose_reply = ''Replace {name} below. '' @ embedded_object_text @ '' Done.''
   \<and> jsonString braces_in_prose_reply = Inr (''{name} below. '' @ embedded_object_text)
   \<and> generatedCode braces_in_prose_reply = Inl SyntaxError"
  by (simp add: generatedCode_def jsonString_def substring_def input_eval json_eval)

text \<open>
  The guard of lines 10-12 on a body that is not \<^verbatim>\<open>null\<close>: when the body has no
  \<^verbatim>\<open>structuredData\<close> member, the handler answers with status 400 and the body
  \<^verbatim>\<open>{ error: "No structured data provided" }\<close>, and calls neither the generation service
  nor the store.  This holds for an object, and also for a string, a number, a boolean
  and an array, which destructure to \<^verbatim>\<open>undefined\<close>.
\<close>

lemma missing_structuredData_400:
  assumes "request_json E = Inr payload"
    and "payload \<noteq> JNull"
    and "get_prop payload ''structuredData'' = None"
  shows "POST E = ([], Response 400 (JObj [(''error'', JStr ''No structured data provided'')]))"
proof -
  from assms(2,3) have "member (Some payload) ''structuredData'' = Inr None"
    by (cases payload) simp_all
  with assms(1) show ?thesis
    by (simp add: POST_def POST_try_def)
qed

lemma missing_structuredData_400_examples:
  "POST (sample_env (JObj [(''userId'', JStr ''u1'')]) (Some ''key'') example_reply store_ok)
     = ([], Response 400 (JObj [(''error'', JStr ''No structured data provided'')]))
   \<and> POST (sample_env (JObj []) (Some ''key'') example_reply store_ok)
     = ([], Response 400 (JObj [(''error'', JStr ''No structured data provided'')]))
   \<and> POST (sample_env (JStr ''hello'') (Some ''key'') example_reply store_ok)
     = ([], Response 400 (JObj [(''error'', JStr ''No structured data provided'')]))
   \<and> POST (sample_env (JArr []) (Some ''key'') example_reply store_ok)
     = ([], Response 400 (JObj [(''error'', JStr ''No structured data provided'')]))"
proof (intro conjI)
  show "POST (sample_env (JObj [(''userId'', JStr ''u1'')]) (Some ''key'') example_reply store_ok)
     = ([], Response 400 (JObj [(''error'', JStr ''No structured data provided'')]))"
    by (rule missing_structuredData_400 [where payload = "JObj [(''userId'', JStr ''u1'')]"])
       (simp_all add: sample_env_def)
  show "POST (sample_env (JObj []) (Some ''key'') example_reply store_ok)
     = ([], Response 400 (JObj [(''error'', JStr ''No structured data provided'')]))"
    by (rule missing_structuredData_400 [where payload = "JObj []"])
       (simp_all add: sample_env_def)
  show "POST (sample_env (JStr ''hello'') (Some ''key'') example_reply store_ok)
     = ([], Response 400 (JObj [(''error'', JStr ''No structured data provided'')]))"
    by (rule missing_structuredData_400 [where payload = "JStr ''hello''"])
       (simp_all add: sample_env_def)
  show "POST (sample_env (JArr []) (Some ''key'') example_reply store_ok)
     = ([], Response 400 (JObj [(''error'', JStr ''No structured data provided'')]))"
    by (rule missing_structuredData_400 [where payload = "JArr []"])
       (simp_all add: sample_env_def)
qed

text \<open>
  Claim C6, at the request body \<^verbatim>\<open>null\<close>.  The body has no \<^verbatim>\<open>structuredData\<close>, yet the
  guard of lines 10-12 is never reached: destructuring \<^verbatim>\<open>null\<close> on line 8 throws inside the
  \<^verbatim>\<open>try\<close>, and the handler answers with status 200, \<^verbatim>\<open>success: true\<close> and the fallback
  triple instead of the 400 error.  It still calls neither the generation service nor the
  store.
\<close>

theorem null_payload_answered_with_fallback:
  "get_prop JNull ''structuredData'' = None
   \<and> POST_try (sample_env JNull (Some ''key'') example_reply store_ok) = ([], Inl TypeError)
   \<and> POST (sample_env JNull (Some ''key'') example_reply store_ok)
       = ([], success_response fallbackPortfolio)
   \<and> status (snd (POST (sample_env JNull (Some ''key'') example_reply store_ok))) = 200
   \<and> snd (POST (sample_env JNull (Some ''key'') example_reply store_ok))
       \<noteq> Response 400 (JObj [(''error'', JStr ''No structured data provided'')])"
  by (simp add: POST_def POST_try_def sample_env_def success_response_def)

text \<open>
  Claim C7.  When the request carries structured data and no \<^verbatim>\<open>userId\<close> (the member is
  absent, or falsy), the credential is configured and the reply parses, the only call
  made is the generation call, so nothing is inserted into \<^verbatim>\<open>portfolio_data\<close> or
  \<^verbatim>\<open>portfolios\<close>, and the caller receives status 200 with the parsed value.
\<close>

theorem anonymous_generation_not_persisted:
  assumes "request_json E = Inr payload"
    and "get_prop payload ''structuredData'' = Some sd"
    and "truthy (Some sd)"
    and "GOOGLE_GENERATIVE_AI_API_KEY E = Some key" and "key \<noteq> []"
    and "generateText E sd = Inr reply"
    and "generatedCode reply = Inr code"
    and "\<not> truthy (get_prop payload ''userId'')"
  shows "POST E = ([GenerateText sd], success_response code)
       \<and> inserts ''portfolio_data'' (fst (POST E)) = []
       \<and> inserts ''portfolios'' (fst (POST E)) = []"
  using POST_anonymous [OF assms] by simp

theorem anonymous_generation_not_persisted_witness:
  "get_prop request_anonymous ''userId'' = None
   \<and> POST (sample_env request_anonymous (Some ''key'') example_reply store_ok)
     = ([GenerateText john_doe], success_response example_object)
   \<and> inserts ''portfolio_data''
       (fst (POST (sample_env request_anonymous (Some ''key'') example_reply store_ok))) = []
   \<and> inserts ''portfolios''
       (fst (POST (sample_env request_anonymous (Some ''key'') example_reply store_ok))) = []"
proof -
  have u: "get_prop request_anonymous ''userId'' = None"
    by (simp add: request_anonymous_def)
  from anonymous_generation_not_persisted
    [where E = "sample_env request_anonymous (Some ''key'') example_reply store_ok"
       and payload = request_anonymous and sd = john_doe and key = "''key''"
       and reply = example_reply and code = example_object,
     OF _ _ _ _ _ _ example_reply_parsed]
  have "POST (sample_env request_anonymous (Some ''key'') example_reply store_ok)
     = ([GenerateText john_doe], success_response example_object)
   \<and> inserts ''portfolio_data''
       (fst (POST (sample_env request_anonymous (Some ''key'') example_reply store_ok))) = []
   \<and> inserts ''portfolios''
       (fst (POST (sample_env request_anonymous (Some ''key'') example_reply store_ok))) = []"
    by (simp add: sample_env_def request_anonymous_def john_doe_def)
  with u show ?thesis
    by blast
qed

text \<open>
  Claim C8, amended.  Every row the handler inserts into \<^verbatim>\<open>portfolios\<close> has
  \<^verbatim>\<open>is_published\<close> false and \<^verbatim>\<open>view_count\<close> zero.  When the structured data has no name
  (\<^verbatim>\<open>personal_info.name\<close> is missing or \<^verbatim>\<open>null\<close>), its title is \<^verbatim>\<open>Untitled Portfolio\<close> and its
  slug is \<^verbatim>\<open>portfolio-\<close> followed by the clock time in decimal.  Otherwise the name is a
  string, the title is the name, and the slug is the name in lower case with every run
  of white space replaced by one hyphen, followed by a hyphen and the clock time.
\<close>

theorem portfolio_record_derived_fields:
  assumes "request_json E = Inr payload"
    and "get_prop payload ''structuredData'' = Some sd"
    and "Insert ''portfolios'' row2 \<in> set (fst (POST E))"
  shows "(nullish (personal_name sd)
            \<and> map_of row2 ''title'' = Some (Value (JStr ''Untitled Portfolio''))
            \<and> map_of row2 ''slug'' = Some (Value (JStr (''portfolio-'' @ show_int (Date_now E))))
          \<or> (\<exists>n. personal_name sd = Some (JStr n)
                 \<and> map_of row2 ''title'' = Some (Value (JStr n))
                 \<and> map_of row2 ''slug'' =
                     Some (Value (JStr (replace_spaces (toLowerCase n) @ ''-''
                                          @ show_int (Date_now E))))))
       \<and> map_of row2 ''is_published'' = Some (Value (JBool False))
       \<and> map_of row2 ''view_count'' = Some (Value (JNum 0 0))"
proof -
  from POST_portfolios_insert [OF assms] obtain u pd code where
    "portfolios_row u pd sd code (Date_now E) = Inr row2"
    by blast
  from portfolios_row_fields [OF this] obtain s where
    s: "make_slug sd (Date_now E) = Inr s"
    and f: "map_of row2 ''title'' = Some (Value (coalesce (personal_name sd) (JStr ''Untitled Portfolio'')))"
      "map_of row2 ''slug'' = Some (Value (JStr s))"
      "map_of row2 ''is_published'' = Some (Value (JBool False))"
      "map_of row2 ''view_count'' = Some (Value (JNum 0 0))"
    by blast
  from make_slug_cases [OF s] f show ?thesis
    by (auto simp: coalesce_def)
qed

theorem portfolio_record_derived_fields_witness:
  "map_of (john_doe_portfolio_row (JStr ''<p>x</p>'') (JStr []) (JStr [])) ''title''
     = Some (Value (JStr ''John Doe''))
   \<and> map_of (john_doe_portfolio_row (JStr ''<p>x</p>'') (JStr []) (JStr [])) ''slug''
     = Some (Value (JStr (replace_spaces (toLowerCase ''John Doe'') @ ''-''
                          @ show_int 1700000000000)))
   \<and> map_of (john_doe_portfolio_row (JStr ''<p>x</p>'') (JStr []) (JStr [])) ''is_published''
     = Some (Value (JBool False))
   \<and> map_of (john_doe_portfolio_row (JStr ''<p>x</p>'') (JStr []) (JStr [])) ''view_count''
     = Some (Value (JNum 0 0))"
proof -
  let ?E = "sample_env request_with_user (Some ''key'') example_reply store_ok"
  let ?row = "john_doe_portfolio_row (JStr ''<p>x</p>'') (JStr []) (JStr [])"
  have 1: "request_json ?E = Inr request_with_user"
    by (simp add: sample_env_def)
  have 2: "get_prop request_with_user ''structuredData'' = Some john_doe"
    by (simp add: request_with_user_def)
  have 3: "Insert ''portfolios'' ?row \<in> set (fst (POST ?E))"
    by (simp add: POST_example_with_user)
  have n: "personal_name john_doe = Some (JStr ''John Doe'')"
    by (simp add: personal_name_def john_doe_def)
  have t: "Date_now ?E = 1700000000000"
    by (simp add: sample_env_def)
  from portfolio_record_derived_fields [OF 1 2 3] n t show ?thesis
    by simp
qed

text \<open>
  The claim as written makes the slug the lower-cased name plus a timestamp.  For the name
  \<^verbatim>\<open>John Doe\<close> at clock time \<open>1700000000000\<close> the stored slug is \<^verbatim>\<open>john-doe-1700000000000\<close>,
  which is not the lower-cased name \<^verbatim>\<open>john doe\<close> followed by the timestamp, with or without
  a hyphen between them.
\<close>

theorem slug_hyphenated_counterexample:
  "personal_name john_doe = Some (JStr ''John Doe'')
   \<and> Insert ''portfolios'' (john_doe_portfolio_row (JStr ''<p>x</p>'') (JStr []) (JStr []))
       \<in> set (fst (POST (sample_env request_with_user (Some ''key'') example_reply store_ok)))
   \<and> map_of (john_doe_portfolio_row (JStr ''<p>x</p>'') (JStr []) (JStr [])) ''slug''
       = Some (Value (JStr ''john-doe-1700000000000''))
   \<and> toLowerCase ''John Doe'' = ''john doe''
   \<and> ''john-doe-1700000000000'' \<noteq> toLowerCase ''John Doe'' @ show_int 1700000000000
   \<and> ''john-doe-1700000000000'' \<noteq> toLowerCase ''John Doe'' @ ''-'' @ show_int 1700000000000"
  by (simp add: POST_example_with_user personal_name_def john_doe_def john_doe_portfolio_row_def
      string_eval)

text \<open>
  Claim C10, at the reply \<^verbatim>\<open>}1{\<close>.  The reply has both braces, the last \<^verbatim>\<open>}\<close> (index 0)
  before the first \<^verbatim>\<open>{\<close> (index 2).  \<^verbatim>\<open>substring(2, 1)\<close> swaps its arguments and gives
  \<^verbatim>\<open>1\<close>, which is valid JSON: the handler inserts into both tables, with empty contents,
  and answers with the number 1 as the portfolio, not with the fallback triple.
\<close>

theorem reversed_braces_not_fallback:
  "indexOf ''}1{'' CHR ''{'' = 2 \<and> lastIndexOf ''}1{'' CHR ''}'' = 0
   \<and> jsonString ''}1{'' = Inr ''1''
   \<and> POST (sample_env request_with_user (Some ''key'') ''}1{'' store_ok)
     = ([GenerateText john_doe,
         Insert ''portfolio_data'' (portfolio_data_row (JStr ''u1'') john_doe),
         Insert ''portfolios'' (john_doe_portfolio_row (JStr []) (JStr []) (JStr []))],
        success_response (JNum 1 0))
   \<and> success_response (JNum 1 0) \<noteq> success_response fallbackPortfolio"
  by (simp add: handler_eval input_eval json_eval string_eval success_response_def
      fallbackPortfolio_def)

section \<open>Claims about the dashboard\<close>

text \<open>
  Claim C9.  After \<^verbatim>\<open>fetchData\<close> has received the rows of \<^verbatim>\<open>resumes\<close> and \<^verbatim>\<open>portfolios\<close> for
  a signed-in user, the state it leaves for rendering holds one entry per row, in order,
  and in every entry an optional column that the row lacks (or has as \<^verbatim>\<open>null\<close>) is replaced
  by its default while a column that is present is kept: a resume's \<^verbatim>\<open>processing_status\<close>
  defaults to \<^verbatim>\<open>completed\<close>, its \<^verbatim>\<open>file_url\<close> and \<^verbatim>\<open>extracted_text\<close> to the empty string, its
  \<^verbatim>\<open>pages_count\<close> to 0; a portfolio's \<^verbatim>\<open>metadata\<close> defaults to the descriptor with empty
  title, empty description and no keywords, its \<^verbatim>\<open>title\<close> to \<^verbatim>\<open>Untitled Portfolio\<close>, its
  \<^verbatim>\<open>customizations\<close> to the empty object, its \<^verbatim>\<open>view_count\<close> to 0, its identifiers and
  contents to the empty string, its \<^verbatim>\<open>last_viewed_at\<close> to \<^verbatim>\<open>null\<close>; \<^verbatim>\<open>user_id\<close> defaults to the
  signed-in user's identifier and \<^verbatim>\<open>updated_at\<close> to \<^verbatim>\<open>created_at\<close>.
\<close>

theorem dashboard_rows_defaulted:
  assumes "resumesRes res = Some rrows" and "portfoliosRes res = Some prows"
    and "d' = fetchData (Some userId) (Inr res) d"
  shows "length (resumes d') = length rrows \<and> length (portfolios d') = length prows
       \<and> (\<forall>i<length rrows.
            processing_status (resumes d' ! i) =
              (if nullish (map_of (rrows ! i) ''processing_status'') then Some (JStr ''completed'')
               else map_of (rrows ! i) ''processing_status'')
          \<and> Resume.user_id (resumes d' ! i) =
              (if nullish (map_of (rrows ! i) ''user_id'') then Some (JStr userId)
               else map_of (rrows ! i) ''user_id'')
          \<and> file_url (resumes d' ! i) =
              (if nullish (map_of (rrows ! i) ''file_url'') then Some (JStr [])
               else map_of (rrows ! i) ''file_url'')
          \<and> extracted_text (resumes d' ! i) =
              (if nullish (map_of (rrows ! i) ''extracted_text'') then Some (JStr [])
               else map_of (rrows ! i) ''extracted_text'')
          \<and> pages_count (resumes d' ! i) =
              (if nullish (map_of (rrows ! i) ''pages_count'') then Some (JNum 0 0)
               else map_of (rrows ! i) ''pages_count'')
          \<and> Resume.updated_at (resumes d' ! i) =
              (if nullish (map_of (rrows ! i) ''updated_at'') then map_of (rrows ! i) ''created_at''
               else map_of (rrows ! i) ''updated_at''))
       \<and> (\<forall>i<length prows.
            metadata (portfolios d' ! i) =
              (if nullish (map_of (prows ! i) ''metadata'')
               then Some (JObj [(''title'', JStr []), (''description'', JStr []), (''keywords'', JArr [])])
               else map_of (prows ! i) ''metadata'')
          \<and> Portfolio.user_id (portfolios d' ! i) =
              (if nullish (map_of (prows ! i) ''user_id'') then Some (JStr userId)
               else map_of (prows ! i) ''user_id'')
          \<and> portfolio_data_id (portfolios d' ! i) =
              (if nullish (map_of (prows ! i) ''portfolio_data_id'') then Some (JStr [])
               else map_of (prows ! i) ''portfolio_data_id'')
          \<and> title (portfolios d' ! i) =
              (if nullish (map_of (prows ! i) ''title'') then Some (JStr ''Untitled Portfolio'')
               else map_of (prows ! i) ''title'')
          \<and> slug (portfolios d' ! i) =
              (if nullish (map_of (prows ! i) ''slug'') then Some (JStr [])
               else map_of (prows ! i) ''slug'')
          \<and> template_id (portfolios d' ! i) =
              (if nullish (map_of (prows ! i) ''template_id'') then Some (JStr [])
               else map_of (prows ! i) ''template_id'')
          \<and> html_content (portfolios d' ! i) =
              (if nullish (map_of (prows ! i) ''html_content'') then Some (JStr [])
               else map_of (prows ! i) ''html_content'')
          \<and> css_content (portfolios d' ! i) =
              (if nullish (map_of (prows ! i) ''css_content'') then Some (JStr [])
               else map_of (prows ! i) ''css_content'')
          \<and> js_content (portfolios d' ! i) =
              (if nullish (map_of (prows ! i) ''js_content'') then Some (JStr [])
               else map_of (prows ! i) ''js_content'')
          \<and> customizations (portfolios d' ! i) =
              (if nullish (map_of (prows ! i) ''customizations'') then Some (JObj [])
               else map_of (prows ! i) ''customizations'')
          \<and> is_published (portfolios d' ! i) = truthy (map_of (prows ! i) ''is_published'')
          \<and> view_count (portfolios d' ! i) =
              (if nullish (map_of (prows ! i) ''view_count'') then Some (JNum 0 0)
               else map_of (prows ! i) ''view_count'')
          \<and> last_viewed_at (portfolios d' ! i) =
              (if nullish (map_of (prows ! i) ''last_viewed_at'') then Some JNull
               else map_of (prows ! i) ''last_viewed_at'')
          \<and> Portfolio.updated_at (portfolios d' ! i) =
              (if nullish (map_of (prows ! i) ''updated_at'') then map_of (prows ! i) ''created_at''
               else map_of (prows ! i) ''updated_at''))"
proof -
  from assms have r: "resumes d' = map (Resume_of userId) rrows"
    and p: "portfolios d' = map (Portfolio_of userId) prows"
    by (simp_all add: fetchData_def Let_def)
  have "\<forall>i<length rrows.
            processing_status (map (Resume_of userId) rrows ! i) =
              (if nullish (map_of (rrows ! i) ''processing_status'') then Some (JStr ''completed'')
               else map_of (rrows ! i) ''processing_status'')
          \<and> Resume.user_id (map (Resume_of userId) rrows ! i) =
              (if nullish (map_of (rrows ! i) ''user_id'') then Some (JStr userId)
               else map_of (rrows ! i) ''user_id'')
          \<and> file_url (map (Resume_of userId) rrows ! i) =
              (if nullish (map_of (rrows ! i) ''file_url'') then Some (JStr [])
               else map_of (rrows ! i) ''file_url'')
          \<and> extracted_text (map (Resume_of userId) rrows ! i) =
              (if nullish (map_of (rrows ! i) ''extracted_text'') then Some (JStr [])
               else map_of (rrows ! i) ''extracted_text'')
          \<and> pages_count (map (Resume_of userId) rrows ! i) =
              (if nullish (map_of (rrows ! i) ''pages_count'') then Some (JNum 0 0)
               else map_of (rrows ! i) ''pages_count'')
          \<and> Resume.updated_at (map (Resume_of userId) rrows ! i) =
              (if nullish (map_of (rrows ! i) ''updated_at'') then map_of (rrows ! i) ''created_at''
               else map_of (rrows ! i) ''updated_at'')"
    by (simp add: Resume_of_def nullish_or_def)
  moreover have "\<forall>i<length prows.
            metadata (map (Portfolio_of userId) prows ! i) =
              (if nullish (map_of (prows ! i) ''metadata'')
               then Some (JObj [(''title'', JStr []), (''description'', JStr []), (''keywords'', JArr [])])
               else map_of (prows ! i) ''metadata'')
          \<and> Portfolio.user_id (map (Portfolio_of userId) prows ! i) =
              (if nullish (map_of (prows ! i) ''user_id'') then Some (JStr userId)
               else map_of (prows ! i) ''user_id'')
          \<and> portfolio_data_id (map (Portfolio_of userId) prows ! i) =
              (if nullish (map_of (prows ! i) ''portfolio_data_id'') then Some (JStr [])
               else map_of (prows ! i) ''portfolio_data_id'')
          \<and> title (map (Portfolio_of userId) prows ! i) =
              (if nullish (map_of (prows ! i) ''title'') then Some (JStr ''Untitled Portfolio'')
               else map_of (prows ! i) ''title'')
          \<and> slug (map (Portfolio_of userId) prows ! i) =
              (if nullish (map_of (prows ! i) ''slug'') then Some (JStr [])
               else map_of (prows ! i) ''slug'')
          \<and> template_id (map (Portfolio_of userId) prows ! i) =
              (if nullish (map_of (prows ! i) ''template_id'') then Some (JStr [])
               else map_of (prows ! i) ''template_id'')
          \<and> html_content (map (Portfolio_of userId) prows ! i) =
              (if nullish (map_of (prows ! i) ''html_content'') then Some (JStr [])
               else map_of (prows ! i) ''html_content'')
          \<and> css_content (map (Portfolio_of userId) prows ! i) =
              (if nullish (map_of (prows ! i) ''css_content'') then Some (JStr [])
               else map_of (prows ! i) ''css_content'')
          \<and> js_content (map (Portfolio_of userId) prows ! i) =
              (if nullish (map_of (prows ! i) ''js_content'') then Some (JStr [])
               else map_of (prows ! i) ''js_content'')
          \<and> customizations (map (Portfolio_of userId) prows ! i) =
              (if nullish (map_of (prows ! i) ''customizations'') then Some (JObj [])
               else map_of (prows ! i) ''customizations'')
          \<and> is_published (map (Portfolio_of userId) prows ! i)
              = truthy (map_of (prows ! i) ''is_published'')
          \<and> view_count (map (Portfolio_of userId) prows ! i) =
              (if nullish (map_of (prows ! i) ''view_count'') then Some (JNum 0 0)
               else map_of (prows ! i) ''view_count'')
          \<and> last_viewed_at (map (Portfolio_of userId) prows ! i) =
              (if nullish (map_of (prows ! i) ''last_viewed_at'') then Some JNull
               else map_of (prows ! i) ''last_viewed_at'')
          \<and> Portfolio.updated_at (map (Portfolio_of userId) prows ! i) =
              (if nullish (map_of (prows ! i) ''updated_at'') then map_of (prows ! i) ''created_at''
               else map_of (prows ! i) ''updated_at'')"
    by (simp add: Portfolio_of_def nullish_or_def)
  ultimately show ?thesis
    unfolding r p by simp
qed

theorem dashboard_rows_defaulted_witness:
  "processing_status (resumes (fetchData (Some ''u1'') (Inr sample_reads) initial_dashboard) ! 0)
     = Some (JStr ''completed'')
   \<and> metadata (portfolios (fetchData (Some ''u1'') (Inr sample_reads) initial_dashboard) ! 0)
     = Some (JObj [(''title'', JStr []), (''description'', JStr []), (''keywords'', JArr [])])"
proof -
  have 1: "resumesRes sample_reads = Some [bare_resume_row]"
    and 2: "portfoliosRes sample_reads = Some [bare_portfolio_row]"
    by (simp_all add: sample_reads_def)
  from dashboard_rows_defaulted [OF 1 2 refl, of "''u1''" initial_dashboard]
  show ?thesis
    by (simp add: bare_resume_row_def bare_portfolio_row_def)
qed

end
